theory Spec2Isabelle
  imports Main "HOL-Library.Sublist" "HOL-Library.AList"
begin

text \<open>
  A model of the agent messaging and dispatch layer of the A2A cloud agents: the rule-based
  intent classifiers, the region tables and the cross-region locator of the EC2 agent, the
  message envelope and the send, receive, broadcast and query operations of the agents, and the
  EC2 and S3 handlers of the coordinator. Functions that change an agent, read the clock, print
  or call the provider take the world and return the new one; a function that can raise returns
  a sum whose left side is the exception.
\<close>

section \<open>Python text\<close>



definition lower_char :: "char \<Rightarrow> char" where
  "lower_char c =
     (case map_of (zip ''ABCDEFGHIJKLMNOPQRSTUVWXYZ'' ''abcdefghijklmnopqrstuvwxyz'') c of
        None \<Rightarrow> c
      | Some d \<Rightarrow> d)"

definition lower :: "string \<Rightarrow> string" where
  "lower s = map lower_char s"

text \<open>\<open>contains sub s\<close> is Python's \<open>sub in s\<close> on strings.\<close>

primrec contains :: "string \<Rightarrow> string \<Rightarrow> bool" where
  "contains sub [] = (sub = [])"
| "contains sub (c # cs) = (prefix sub (c # cs) \<or> contains sub cs)"

definition is_space :: "char \<Rightarrow> bool" where
  "is_space c = (c \<in> set [CHR 0x09, CHR 0x0A, CHR 0x0B, CHR 0x0C, CHR 0x0D,
                           CHR 0x1C, CHR 0x1D, CHR 0x1E, CHR 0x1F, CHR 0x20])"

definition strip :: "string \<Rightarrow> string" where
  "strip s = rev (dropWhile is_space (rev (dropWhile is_space s)))"

definition startswith :: "string \<Rightarrow> string \<Rightarrow> bool" where
  "startswith s p = prefix p s"

section \<open>Intents and the rule-based classifiers\<close>

text \<open>
  An intent is the dict \<open>{'service': .., 'action': .., 'parameters': {..}}\<close>. A parameter
  value is a string or null (\<open>None\<close>), as the intent services produce them.
\<close>

record intent =
  service :: string
  action :: string
  parameters :: "(string \<times> string option) list"

definition mk_intent :: "string \<Rightarrow> string \<Rightarrow> intent" where
  "mk_intent s a = \<lparr>service = s, action = a, parameters = []\<rparr>"

text \<open>
  \<open>PerplexityClient._fallback_parse\<close> (perplexity\_client.py). The two keyword blocks are an
  \<open>if\<close>/\<open>elif\<close>; a block whose inner chain matches nothing falls through to the greeting
  test. \<open>None\<close> stands for "no return yet".
\<close>

definition fallback_parse_rules :: "string \<Rightarrow> intent option" where
  "fallback_parse_rules l =
     (if contains ''ec2'' l \<or> contains ''instance'' l then
        (if contains ''create'' l \<or> contains ''launch'' l then Some (mk_intent ''ec2'' ''create_instance'')
         else if contains ''list'' l \<or> contains ''show'' l then Some (mk_intent ''ec2'' ''list_instances'')
         else if contains ''stop'' l then Some (mk_intent ''ec2'' ''stop_instance'')
         else if contains ''terminate'' l \<or> contains ''delete'' l then Some (mk_intent ''ec2'' ''terminate_instance'')
         else None)
      else if contains ''s3'' l \<or> contains ''bucket'' l then
        (if contains ''create'' l then Some (mk_intent ''s3'' ''create_bucket'')
         else if contains ''list'' l then
           (if contains ''object'' l \<or> contains ''file'' l then Some (mk_intent ''s3'' ''list_objects'')
            else Some (mk_intent ''s3'' ''list_buckets''))
         else if contains ''delete'' l then Some (mk_intent ''s3'' ''delete_bucket'')
         else None)
      else None)"

definition greeting_tokens :: "string list" where
  "greeting_tokens = [''hi'', ''hello'', ''hey'', ''help'']"

definition starts_with_greeting :: "string \<Rightarrow> bool" where
  "starts_with_greeting l =
     list_ex (\<lambda>greeting. strip l = greeting \<or> startswith (strip l) (greeting @ '' '')) greeting_tokens"

definition no_domain_keyword :: "string \<Rightarrow> bool" where
  "no_domain_keyword l =
     (\<not> contains ''ec2'' l \<and> \<not> contains ''s3'' l \<and> \<not> contains ''instance'' l \<and> \<not> contains ''bucket'' l)"

definition fallback_parse :: "string \<Rightarrow> intent" where
  "fallback_parse user_input =
     (let user_input_lower = lower user_input in
      case fallback_parse_rules user_input_lower of
        Some i \<Rightarrow> i
      | None \<Rightarrow>
          if starts_with_greeting user_input_lower \<and> no_domain_keyword user_input_lower
          then mk_intent ''unknown'' ''greeting''
          else mk_intent ''unknown'' ''help'')"

text \<open>
  \<open>FastPerplexityClient._fast_fallback\<close> (fast\_perplexity\_client.py), the classifier the
  coordinator uses. Here the two keyword blocks are two separate \<open>if\<close>s, there is no
  \<open>list_objects\<close> rule, and a greeting is any text that contains a greeting phrase.
\<close>

definition fast_ec2_rules :: "string \<Rightarrow> intent option" where
  "fast_ec2_rules text =
     (if contains ''ec2'' text \<or> contains ''instance'' text then
        (if contains ''create'' text \<or> contains ''launch'' text then Some (mk_intent ''ec2'' ''create_instance'')
         else if contains ''list'' text \<or> contains ''show'' text then Some (mk_intent ''ec2'' ''list_instances'')
         else if contains ''stop'' text then Some (mk_intent ''ec2'' ''stop_instance'')
         else if contains ''terminate'' text \<or> contains ''delete'' text then Some (mk_intent ''ec2'' ''terminate_instance'')
         else None)
      else None)"

definition fast_s3_rules :: "string \<Rightarrow> intent option" where
  "fast_s3_rules text =
     (if contains ''s3'' text \<or> contains ''bucket'' text then
        (if contains ''create'' text then Some (mk_intent ''s3'' ''create_bucket'')
         else if contains ''list'' text then Some (mk_intent ''s3'' ''list_buckets'')
         else if contains ''delete'' text then Some (mk_intent ''s3'' ''delete_bucket'')
         else None)
      else None)"

definition fast_greetings :: "string list" where
  "fast_greetings =
     [''hi'', ''hello'', ''hey'', ''how are you'', ''how are u'', ''whats up'',
      ''what'' @ [CHR 0x27] @ ''s up'']"

definition fast_fallback :: "string \<Rightarrow> intent" where
  "fast_fallback user_input =
     (let text = lower user_input in
      case fast_ec2_rules text of
        Some i \<Rightarrow> i
      | None \<Rightarrow>
          (case fast_s3_rules text of
             Some i \<Rightarrow> i
           | None \<Rightarrow>
               if list_ex (\<lambda>g. contains g text) fast_greetings then mk_intent ''unknown'' ''greeting''
               else if contains ''help'' text then mk_intent ''unknown'' ''help''
               else mk_intent ''unknown'' ''help''))"

section \<open>Region names\<close>

text \<open>
  \<open>EC2Agent._map_region\<close>: the dict \<open>region_map\<close> in source order (its keys are pairwise
  different, so \<open>map_of\<close> reads it as the dict does), looked up at the lower-cased, stripped
  input, with \<open>us-east-2\<close> for an absent or empty input and for a key that is not there.
\<close>

definition region_map :: "(string \<times> string) list" where
  "region_map =
     [(''virginia'', ''us-east-1''),
      (''n. virginia'', ''us-east-1''),
      (''north virginia'', ''us-east-1''),
      (''us-east-1'', ''us-east-1''),
      (''ohio'', ''us-east-2''),
      (''us-east-2'', ''us-east-2''),
      (''california'', ''us-west-1''),
      (''n. california'', ''us-west-1''),
      (''northern california'', ''us-west-1''),
      (''us-west-1'', ''us-west-1''),
      (''oregon'', ''us-west-2''),
      (''us-west-2'', ''us-west-2''),
      (''ireland'', ''eu-west-1''),
      (''eu-west-1'', ''eu-west-1''),
      (''london'', ''eu-west-2''),
      (''eu-west-2'', ''eu-west-2''),
      (''paris'', ''eu-west-3''),
      (''eu-west-3'', ''eu-west-3''),
      (''frankfurt'', ''eu-central-1''),
      (''eu-central-1'', ''eu-central-1''),
      (''stockholm'', ''eu-north-1''),
      (''eu-north-1'', ''eu-north-1''),
      (''tokyo'', ''ap-northeast-1''),
      (''ap-northeast-1'', ''ap-northeast-1''),
      (''seoul'', ''ap-northeast-2''),
      (''ap-northeast-2'', ''ap-northeast-2''),
      (''osaka'', ''ap-northeast-3''),
      (''ap-northeast-3'', ''ap-northeast-3''),
      (''singapore'', ''ap-southeast-1''),
      (''ap-southeast-1'', ''ap-southeast-1''),
      (''sydney'', ''ap-southeast-2''),
      (''ap-southeast-2'', ''ap-southeast-2''),
      (''mumbai'', ''ap-south-1''),
      (''ap-south-1'', ''ap-south-1''),
      (''canada'', ''ca-central-1''),
      (''central'', ''ca-central-1''),
      (''ca-central-1'', ''ca-central-1''),
      (''sao paulo'', ''sa-east-1''),
      (''brazil'', ''sa-east-1''),
      (''sa-east-1'', ''sa-east-1'')]"

definition default_region :: string where
  "default_region = ''us-east-2''"

definition map_region :: "string option \<Rightarrow> string" where
  "map_region region_input =
     (case region_input of
        None \<Rightarrow> default_region
      | Some r \<Rightarrow>
          if r = [] then default_region
          else (case map_of region_map (strip (lower r)) of
                  None \<Rightarrow> default_region
                | Some code \<Rightarrow> code))"

text \<open>
  \<open>EC2Agent._get_region_name\<close>, the lookup for display: the dict \<open>region_names\<close> from region
  code to friendly name, and the code itself when it is not a key. The a with tilde of the last
  name stands as its two bytes in UTF-8.
\<close>

definition region_names :: "(string \<times> string) list" where
  "region_names =
     [(''us-east-1'', ''N. Virginia''),
      (''us-east-2'', ''Ohio''),
      (''us-west-1'', ''N. California''),
      (''us-west-2'', ''Oregon''),
      (''eu-west-1'', ''Ireland''),
      (''eu-west-2'', ''London''),
      (''eu-west-3'', ''Paris''),
      (''eu-central-1'', ''Frankfurt''),
      (''eu-north-1'', ''Stockholm''),
      (''ap-northeast-1'', ''Tokyo''),
      (''ap-northeast-2'', ''Seoul''),
      (''ap-northeast-3'', ''Osaka''),
      (''ap-southeast-1'', ''Singapore''),
      (''ap-southeast-2'', ''Sydney''),
      (''ap-south-1'', ''Mumbai''),
      (''ca-central-1'', ''Canada Central''),
      (''sa-east-1'', ''S'' @ [CHR 0xC3, CHR 0xA3] @ ''o Paulo'')]"

definition get_region_name :: "string \<Rightarrow> string" where
  "get_region_name region_code =
     (case map_of region_names region_code of
        None \<Rightarrow> region_code
      | Some n \<Rightarrow> n)"

section \<open>Python values, exceptions and the environment\<close>

text \<open>
  Message payloads and results are Python values: \<open>None\<close>, booleans, integers, strings, lists
  and dicts with string keys (a dict is the list of its items, in insertion order).
\<close>

datatype pyval =
    PNone
  | PBool bool
  | PInt int
  | PStr string
  | PList "pyval list"
  | PDict "(string \<times> pyval) list"

datatype exn = AttributeError | TypeError | KeyError

text \<open>Truth value of a Python value, as \<open>if x:\<close>, \<open>not x\<close> and \<open>x or y\<close> test it.\<close>

fun truthy :: "pyval \<Rightarrow> bool" where
  "truthy PNone = False"
| "truthy (PBool b) = b"
| "truthy (PInt n) = (n \<noteq> 0)"
| "truthy (PStr s) = (s \<noteq> [])"
| "truthy (PList xs) = (xs \<noteq> [])"
| "truthy (PDict d) = (d \<noteq> [])"

text \<open>\<open>x.get(key, default)\<close>: only a dict has the method.\<close>

fun py_get :: "pyval \<Rightarrow> string \<Rightarrow> pyval \<Rightarrow> exn + pyval" where
  "py_get (PDict d) k dflt = Inr (case map_of d k of None \<Rightarrow> dflt | Some v \<Rightarrow> v)"
| "py_get v k dflt = Inl AttributeError"

text \<open>\<open>x.lower()\<close>: only a string has the method.\<close>

fun py_lower :: "pyval \<Rightarrow> exn + string" where
  "py_lower (PStr s) = Inr (lower s)"
| "py_lower v = Inl AttributeError"

text \<open>\<open>len(x)\<close> of the values that have a length.\<close>

fun py_len :: "pyval \<Rightarrow> exn + int" where
  "py_len (PStr s) = Inr (int (length s))"
| "py_len (PList xs) = Inr (int (length xs))"
| "py_len (PDict d) = Inr (int (length d))"
| "py_len v = Inl TypeError"

text \<open>
  What the program observes of the outside world. The event log records, in order, the lines
  the agents print about their messages and the requests made to the cloud provider (boto3).
\<close>

datatype pcall =
    DescribeRegions
  | DescribeInstances string string
  | DescribeAllInstances
  | GetInstanceInfo pyval
  | RunInstances "string option" string
  | StopInstances string string
  | TerminateInstances string string
  | ListBuckets
  | HeadBucket pyval
  | CreateBucket string "string option"
  | DeleteBucket string
  | ListObjects string

datatype event =
    Registered string string
  | NotFound string
  | Sent string string string
  | Received string string string
  | Provider pcall

text \<open>
  The environment fixes what the clock and the provider answer. \<open>timestamp_at n\<close> and
  \<open>isoformat_at n\<close> are the texts of \<open>datetime.now().timestamp()\<close> and
  \<open>datetime.now().isoformat()\<close> at the n-th reading of the clock. A provider answer is an
  exception text (\<open>Inl\<close>, what \<open>str(e)\<close> gives) or a value; the answers of the calls that
  list resources are already in the shape the agents build from them, and the answer about one
  instance is its state, type and launch time when there is a reservation.
\<close>

record env =
  timestamp_at :: "nat \<Rightarrow> string"
  isoformat_at :: "nat \<Rightarrow> string"
  boto_describe_regions :: "string + string list"
  boto_describe_instances :: "string \<Rightarrow> string \<Rightarrow> string + pyval list"
  boto_describe_all_instances :: "string + (string \<times> pyval) list list"
  boto_instance_info :: "pyval \<Rightarrow> string + (pyval \<times> pyval \<times> string) option"
  boto_run_instance :: "string option \<Rightarrow> string \<Rightarrow> (string \<times> pyval) list"
  boto_stop_instances :: "string \<Rightarrow> string \<Rightarrow> string option"
  boto_terminate_instances :: "string \<Rightarrow> string \<Rightarrow> string option"
  boto_list_buckets :: "string + (string \<times> pyval) list list"
  boto_head_bucket :: "pyval \<Rightarrow> bool"
  boto_client_region :: "string option"
  boto_create_bucket :: "string \<Rightarrow> string option \<Rightarrow> string option"
  boto_delete_bucket :: "string \<Rightarrow> string option"
  boto_list_objects :: "string \<Rightarrow> string + (string \<times> pyval) list list"

section \<open>Messages and agents\<close>

record message =
  msg_id :: string
  sender :: string
  receiver :: string
  content :: pyval
  msg_type :: string
  timestamp :: string

definition to_dict :: "message \<Rightarrow> pyval" where
  "to_dict m =
     PDict [(''id'', PStr (msg_id m)), (''sender'', PStr (sender m)),
            (''receiver'', PStr (receiver m)), (''content'', content m),
            (''type'', PStr (msg_type m)), (''timestamp'', PStr (timestamp m))]"

text \<open>
  The classes of agent in the repository; \<open>CoordinatorAgent\<close> inherits the handler of
  \<open>BaseAgent\<close>. An agent object lives in the list \<open>agents\<close> of the world and is referred
  to by its index there, so that a registry (a dict from names to agent objects, here to
  indices) shares the agents it names.
\<close>

datatype agent_class = BaseAgent | EC2Agent | S3Agent | CoordinatorAgent

record agent =
  name :: string
  cls :: agent_class
  message_queue :: "message list"
  agents_registry :: "(string \<times> nat) list"
  conversation_history :: "pyval list"

record world =
  agents :: "agent list"
  clock :: nat
  trace :: "event list"

definition new_agent :: "string \<Rightarrow> agent_class \<Rightarrow> agent" where
  "new_agent n c =
     \<lparr>name = n, cls = c, message_queue = [], agents_registry = [], conversation_history = []\<rparr>"

definition emit :: "event \<Rightarrow> world \<Rightarrow> world" where
  "emit e w = w\<lparr>trace := trace w @ [e]\<rparr>"

text \<open>
  \<open>Message.__init__\<close> reads the clock twice: once for the timestamp, once for the id
  \<open>f"{sender}-{receiver}-{datetime.now().timestamp()}"\<close>.
\<close>

definition new_message :: "env \<Rightarrow> world \<Rightarrow> string \<Rightarrow> string \<Rightarrow> pyval \<Rightarrow> string \<Rightarrow> message \<times> world" where
  "new_message e w s r c t =
     (\<lparr>msg_id = s @ ''-'' @ r @ ''-'' @ timestamp_at e (Suc (clock w)),
       sender = s, receiver = r, content = c, msg_type = t,
       timestamp = isoformat_at e (clock w)\<rparr>,
      w\<lparr>clock := clock w + 2\<rparr>)"

definition register_agent :: "world \<Rightarrow> nat \<Rightarrow> nat \<Rightarrow> world" where
  "register_agent w self other =
     (let a = agents w ! self; b = agents w ! other in
      emit (Registered (name a) (name b))
        (w\<lparr>agents := (agents w)[self := a\<lparr>agents_registry := AList.update (name b) other (agents_registry a)\<rparr>]\<rparr>))"

section \<open>The resource agents\<close>

definition error_result :: "string \<Rightarrow> pyval" where
  "error_result e = PDict [(''error'', PStr e)]"

text \<open>
  \<open>EC2Agent._find_instance_region\<close>: the regions in the order the provider lists them, one
  \<open>describe_instances\<close> probe per region, the first region with a non-empty
  \<open>Reservations\<close> returned at once, a probe that raises skipped. A failure of the region
  listing itself is not caught here (\<open>Inl\<close>).
\<close>

fun probe_regions :: "env \<Rightarrow> string \<Rightarrow> string list \<Rightarrow> world \<Rightarrow> string option \<times> world" where
  "probe_regions e instance_id [] w = (None, w)"
| "probe_regions e instance_id (region # rest) w =
     (let w' = emit (Provider (DescribeInstances region instance_id)) w in
      case boto_describe_instances e region instance_id of
        Inr reservations \<Rightarrow>
          if reservations \<noteq> [] then (Some region, w') else probe_regions e instance_id rest w'
      | Inl err \<Rightarrow> probe_regions e instance_id rest w')"

definition find_instance_region :: "env \<Rightarrow> world \<Rightarrow> string \<Rightarrow> (string + string option) \<times> world" where
  "find_instance_region e w instance_id =
     (let w1 = emit (Provider DescribeRegions) w in
      case boto_describe_regions e of
        Inl err \<Rightarrow> (Inl err, w1)
      | Inr regions \<Rightarrow> (case probe_regions e instance_id regions w1 of (r, w2) \<Rightarrow> (Inr r, w2)))"

text \<open>
  \<open>EC2Agent.stop_instance\<close> and \<open>EC2Agent.terminate_instance\<close>: the whole body is in a
  \<open>try\<close> whose handler returns \<open>{"error": str(e)}\<close>. \<open>not instance_region\<close> holds of
  \<open>None\<close> and of the empty string.
\<close>

definition stop_instance :: "env \<Rightarrow> world \<Rightarrow> string \<Rightarrow> pyval \<times> world" where
  "stop_instance e w instance_id =
     (case find_instance_region e w instance_id of
        (Inl err, w1) \<Rightarrow> (error_result err, w1)
      | (Inr None, w1) \<Rightarrow>
          (error_result (''Instance '' @ instance_id @ '' not found in any region''), w1)
      | (Inr (Some instance_region), w1) \<Rightarrow>
          if instance_region = [] then
            (error_result (''Instance '' @ instance_id @ '' not found in any region''), w1)
          else
            (let w2 = emit (Provider (StopInstances instance_region instance_id)) w1 in
             case boto_stop_instances e instance_region instance_id of
               Some err \<Rightarrow> (error_result err, w2)
             | None \<Rightarrow>
                 (PDict [(''success'', PBool True), (''instance_id'', PStr instance_id),
                         (''region'', PStr instance_region),
                         (''region_name'', PStr (get_region_name instance_region)),
                         (''message'', PStr (''Instance '' @ instance_id @ '' stopped successfully in ''
                            @ get_region_name instance_region @ '' ('' @ instance_region @ '')''))],
                  w2)))"

definition terminate_instance :: "env \<Rightarrow> world \<Rightarrow> string \<Rightarrow> pyval \<times> world" where
  "terminate_instance e w instance_id =
     (case find_instance_region e w instance_id of
        (Inl err, w1) \<Rightarrow> (error_result err, w1)
      | (Inr None, w1) \<Rightarrow>
          (error_result (''Instance '' @ instance_id @ '' not found in any region''), w1)
      | (Inr (Some instance_region), w1) \<Rightarrow>
          if instance_region = [] then
            (error_result (''Instance '' @ instance_id @ '' not found in any region''), w1)
          else
            (let w2 = emit (Provider (TerminateInstances instance_region instance_id)) w1 in
             case boto_terminate_instances e instance_region instance_id of
               Some err \<Rightarrow> (error_result err, w2)
             | None \<Rightarrow>
                 (PDict [(''success'', PBool True), (''instance_id'', PStr instance_id),
                         (''region'', PStr instance_region),
                         (''region_name'', PStr (get_region_name instance_region)),
                         (''message'', PStr (''Instance '' @ instance_id @ '' terminated successfully in ''
                            @ get_region_name instance_region @ '' ('' @ instance_region @ '')''))],
                  w2)))"

text \<open>
  \<open>EC2Agent.list_instances\<close>, \<open>EC2Agent._get_instance_info\<close> and
  \<open>EC2Agent.create_instance\<close>. Each returns a dict on every path. \<open>create_instance\<close>
  chooses the target region (the mapped region when one is given, \<open>us-east-2\<close> otherwise);
  the rest of its body is its exchange with the provider, whose outcome is the dict it returns.
\<close>

definition list_instances :: "env \<Rightarrow> world \<Rightarrow> pyval \<times> world" where
  "list_instances e w =
     (case boto_describe_all_instances e of
        Inl err \<Rightarrow> error_result err
      | Inr instances \<Rightarrow> PDict [(''success'', PBool True), (''instances'', PList (map PDict instances))],
      emit (Provider DescribeAllInstances) w)"

definition get_instance_info :: "env \<Rightarrow> world \<Rightarrow> pyval \<Rightarrow> pyval \<times> world" where
  "get_instance_info e w instance_id =
     (case boto_instance_info e instance_id of
        Inl err \<Rightarrow> error_result err
      | Inr None \<Rightarrow> error_result ''Instance not found''
      | Inr (Some (state, type, launch_time)) \<Rightarrow>
          PDict [(''success'', PBool True), (''instance_id'', instance_id), (''state'', state),
                 (''type'', type), (''launch_time'', PStr launch_time)],
      emit (Provider (GetInstanceInfo instance_id)) w)"

definition create_instance :: "env \<Rightarrow> world \<Rightarrow> string option \<Rightarrow> string option \<Rightarrow> (string \<times> pyval) list \<times> world" where
  "create_instance e w instance_type region =
     (let target_region =
            (case region of
               None \<Rightarrow> ''us-east-2''
             | Some r \<Rightarrow> if r = [] then ''us-east-2'' else map_region region)
      in (boto_run_instance e instance_type target_region,
          emit (Provider (RunInstances instance_type target_region)) w))"

text \<open>The operations of \<open>S3Agent\<close>, in the same way.\<close>

definition list_buckets :: "env \<Rightarrow> world \<Rightarrow> pyval \<times> world" where
  "list_buckets e w =
     (case boto_list_buckets e of
        Inl err \<Rightarrow> error_result err
      | Inr buckets \<Rightarrow> PDict [(''success'', PBool True), (''buckets'', PList (map PDict buckets))],
      emit (Provider ListBuckets) w)"

definition bucket_exists :: "env \<Rightarrow> world \<Rightarrow> pyval \<Rightarrow> pyval \<times> world" where
  "bucket_exists e w bucket_name =
     (PDict [(''exists'', PBool (boto_head_bucket e bucket_name)), (''bucket_name'', bucket_name)],
      emit (Provider (HeadBucket bucket_name)) w)"

definition show_region :: "string option \<Rightarrow> string" where
  "show_region r = (case r of None \<Rightarrow> ''None'' | Some s \<Rightarrow> s)"

definition region_value :: "string option \<Rightarrow> pyval" where
  "region_value r = (case r of None \<Rightarrow> PNone | Some s \<Rightarrow> PStr s)"

definition create_bucket :: "env \<Rightarrow> world \<Rightarrow> string \<Rightarrow> string option \<Rightarrow> (string \<times> pyval) list \<times> world" where
  "create_bucket e w bucket_name region0 =
     (let region = (case region0 of
                      None \<Rightarrow> boto_client_region e
                    | Some r \<Rightarrow> if r = [] then boto_client_region e else region0);
          w1 = emit (Provider (CreateBucket bucket_name region)) w
      in case boto_create_bucket e bucket_name region of
           Some err \<Rightarrow> ([(''error'', PStr err)], w1)
         | None \<Rightarrow>
             ([(''success'', PBool True), (''bucket_name'', PStr bucket_name),
               (''region'', region_value region),
               (''message'', PStr (''S3 bucket '' @ [CHR 0x27] @ bucket_name @ [CHR 0x27]
                  @ '' created successfully in '' @ show_region region))],
              w1))"

definition delete_bucket :: "env \<Rightarrow> world \<Rightarrow> string \<Rightarrow> pyval \<times> world" where
  "delete_bucket e w bucket_name =
     (case boto_delete_bucket e bucket_name of
        Some err \<Rightarrow> error_result err
      | None \<Rightarrow>
          PDict [(''success'', PBool True), (''bucket_name'', PStr bucket_name),
                 (''message'', PStr (''S3 bucket '' @ [CHR 0x27] @ bucket_name @ [CHR 0x27]
                    @ '' deleted successfully''))],
      emit (Provider (DeleteBucket bucket_name)) w)"

definition list_objects :: "env \<Rightarrow> world \<Rightarrow> string \<Rightarrow> pyval \<times> world" where
  "list_objects e w bucket_name =
     (case boto_list_objects e bucket_name of
        Inl err \<Rightarrow> error_result err
      | Inr objects \<Rightarrow>
          PDict [(''success'', PBool True), (''bucket_name'', PStr bucket_name),
                 (''objects'', PList (map PDict objects))],
      emit (Provider (ListObjects bucket_name)) w)"

section \<open>Message handlers\<close>

text \<open>\<open>BaseAgent.handle_message\<close>: the acknowledgement of an unhandled message.\<close>

definition base_handle_message :: pyval where
  "base_handle_message =
     PDict [(''status'', PStr ''received''), (''message'', PStr ''Message received but not processed'')]"

text \<open>Iterating a value in a comprehension: a list gives its items, a string its characters,
  a dict its keys.\<close>

fun py_iter :: "pyval \<Rightarrow> exn + pyval list" where
  "py_iter (PList xs) = Inr xs"
| "py_iter (PStr s) = Inr (map (\<lambda>c. PStr [c]) s)"
| "py_iter (PDict d) = Inr (map (\<lambda>kv. PStr (fst kv)) d)"
| "py_iter v = Inl TypeError"

text \<open>\<open>[i for i in xs if i.get("state") == "running"]\<close>\<close>

fun running_only :: "pyval list \<Rightarrow> exn + pyval list" where
  "running_only [] = Inr []"
| "running_only (i # rest) =
     (case py_get i ''state'' PNone of
        Inl x \<Rightarrow> Inl x
      | Inr s \<Rightarrow>
          (case running_only rest of
             Inl x \<Rightarrow> Inl x
           | Inr r \<Rightarrow> Inr (if s = PStr ''running'' then i # r else r)))"

text \<open>
  \<open>EC2Agent.handle_message\<close>. A branch that returns nothing falls through to the handler of
  the base class. An exception (\<open>Inl\<close>) is raised where the payload has no \<open>get\<close> or
  the query no \<open>lower\<close>.
\<close>

definition ec2_handle_message :: "env \<Rightarrow> world \<Rightarrow> message \<Rightarrow> (exn + pyval) \<times> world" where
  "ec2_handle_message e w m =
     (if msg_type m = ''query'' then
        (case py_get (content m) ''query'' (PStr []) of
           Inl x \<Rightarrow> (Inl x, w)
         | Inr query \<Rightarrow>
             (case py_lower query of
                Inl x \<Rightarrow> (Inl x, w)
              | Inr q \<Rightarrow>
                  if contains ''instance'' q \<and> contains ''count'' q then
                    (case list_instances e w of
                       (instances, w1) \<Rightarrow>
                         (case py_get instances ''instances'' (PList []) of
                            Inl x \<Rightarrow> (Inl x, w1)
                          | Inr xs \<Rightarrow>
                              (case py_len xs of
                                 Inl x \<Rightarrow> (Inl x, w1)
                               | Inr count \<Rightarrow>
                                   (Inr (PDict [(''count'', PInt count), (''instances'', instances)]), w1))))
                  else if contains ''running'' q then
                    (case list_instances e w of
                       (instances, w1) \<Rightarrow>
                         (case py_get instances ''instances'' (PList []) of
                            Inl x \<Rightarrow> (Inl x, w1)
                          | Inr xs \<Rightarrow>
                              (case py_iter xs of
                                 Inl x \<Rightarrow> (Inl x, w1)
                               | Inr items \<Rightarrow>
                                   (case running_only items of
                                      Inl x \<Rightarrow> (Inl x, w1)
                                    | Inr running \<Rightarrow>
                                        (Inr (PDict [(''running_count'', PInt (int (length running))),
                                                     (''instances'', PList running)]), w1)))))
                  else (Inr base_handle_message, w)))
      else if msg_type m = ''request'' then
        (case py_get (content m) ''action'' PNone of
           Inl x \<Rightarrow> (Inl x, w)
         | Inr act \<Rightarrow>
             if act = PStr ''list_instances'' then
               (case list_instances e w of (r, w1) \<Rightarrow> (Inr r, w1))
             else if act = PStr ''get_instance_info'' then
               (case py_get (content m) ''instance_id'' PNone of
                  Inl x \<Rightarrow> (Inl x, w)
                | Inr instance_id \<Rightarrow>
                    (case get_instance_info e w instance_id of (r, w1) \<Rightarrow> (Inr r, w1)))
             else (Inr base_handle_message, w))
      else (Inr base_handle_message, w))"

text \<open>\<open>S3Agent.handle_message\<close>.\<close>

definition s3_handle_message :: "env \<Rightarrow> world \<Rightarrow> message \<Rightarrow> (exn + pyval) \<times> world" where
  "s3_handle_message e w m =
     (if msg_type m = ''query'' then
        (case py_get (content m) ''query'' (PStr []) of
           Inl x \<Rightarrow> (Inl x, w)
         | Inr query \<Rightarrow>
             (case py_lower query of
                Inl x \<Rightarrow> (Inl x, w)
              | Inr q \<Rightarrow>
                  if contains ''bucket'' q \<and> contains ''count'' q then
                    (case list_buckets e w of
                       (buckets, w1) \<Rightarrow>
                         (case py_get buckets ''buckets'' (PList []) of
                            Inl x \<Rightarrow> (Inl x, w1)
                          | Inr xs \<Rightarrow>
                              (case py_len xs of
                                 Inl x \<Rightarrow> (Inl x, w1)
                               | Inr count \<Rightarrow>
                                   (Inr (PDict [(''count'', PInt count), (''buckets'', buckets)]), w1))))
                  else if contains ''storage'' q \<or> contains ''size'' q then
                    (Inr (PDict [(''message'', PStr ''Storage size calculation requires CloudWatch metrics'')]), w)
                  else (Inr base_handle_message, w)))
      else if msg_type m = ''request'' then
        (case py_get (content m) ''action'' PNone of
           Inl x \<Rightarrow> (Inl x, w)
         | Inr act \<Rightarrow>
             if act = PStr ''list_buckets'' then
               (case list_buckets e w of (r, w1) \<Rightarrow> (Inr r, w1))
             else if act = PStr ''bucket_exists'' then
               (case py_get (content m) ''bucket_name'' PNone of
                  Inl x \<Rightarrow> (Inl x, w)
                | Inr bucket_name \<Rightarrow>
                    (case bucket_exists e w bucket_name of (r, w1) \<Rightarrow> (Inr r, w1)))
             else (Inr base_handle_message, w))
      else (Inr base_handle_message, w))"

text \<open>The handler of the agent at reference \<open>self\<close>, chosen by its class.\<close>

definition handle_message :: "env \<Rightarrow> world \<Rightarrow> nat \<Rightarrow> message \<Rightarrow> (exn + pyval) \<times> world" where
  "handle_message e w self m =
     (case cls (agents w ! self) of
        EC2Agent \<Rightarrow> ec2_handle_message e w m
      | S3Agent \<Rightarrow> s3_handle_message e w m
      | BaseAgent \<Rightarrow> (Inr base_handle_message, w)
      | CoordinatorAgent \<Rightarrow> (Inr base_handle_message, w))"

section \<open>Sending, receiving, broadcasting\<close>

definition log_message :: "nat \<Rightarrow> message \<Rightarrow> world \<Rightarrow> world" where
  "log_message self m w =
     w\<lparr>agents := (agents w)[self := (agents w ! self)
          \<lparr>conversation_history := conversation_history (agents w ! self) @ [to_dict m]\<rparr>]\<rparr>"

definition enqueue :: "nat \<Rightarrow> message \<Rightarrow> world \<Rightarrow> world" where
  "enqueue self m w =
     w\<lparr>agents := (agents w)[self := (agents w ! self)
          \<lparr>message_queue := message_queue (agents w ! self) @ [m]\<rparr>]\<rparr>"

text \<open>\<open>BaseAgent.receive_message\<close>\<close>

definition receive_message :: "env \<Rightarrow> world \<Rightarrow> nat \<Rightarrow> message \<Rightarrow> (exn + pyval) \<times> world" where
  "receive_message e w self m =
     (let w1 = log_message self m (enqueue self m w);
          w2 = emit (Received (name (agents w ! self)) (sender m) (msg_type m)) w1
      in handle_message e w2 self m)"

text \<open>
  \<open>BaseAgent.send_message\<close>. The registry is tested first: for an unknown receiver the
  method prints the error and returns \<open>None\<close>, before any message is built.
\<close>

definition send_message :: "env \<Rightarrow> world \<Rightarrow> nat \<Rightarrow> string \<Rightarrow> pyval \<Rightarrow> string \<Rightarrow> (exn + pyval) \<times> world" where
  "send_message e w self r c t =
     (case map_of (agents_registry (agents w ! self)) r of
        None \<Rightarrow> (Inr PNone, emit (NotFound r) w)
      | Some target_agent \<Rightarrow>
          (case new_message e w (name (agents w ! self)) r c t of
             (m, w1) \<Rightarrow>
               receive_message e (emit (Sent (name (agents w ! self)) r t) (log_message self m w1))
                 target_agent m))"

text \<open>\<open>BaseAgent.query_agent\<close>\<close>

definition query_agent :: "env \<Rightarrow> world \<Rightarrow> nat \<Rightarrow> string \<Rightarrow> string \<Rightarrow> (exn + pyval) \<times> world" where
  "query_agent e w self agent_name query =
     send_message e w self agent_name (PDict [(''query'', PStr query)]) ''query''"

text \<open>
  \<open>BaseAgent.broadcast\<close>: one \<open>send_message\<close> per key of the registry, in the order of the
  dict, each response stored under the key. Nothing in the loop catches an exception, so one
  raised by a handler leaves the loop and the method. The message type is
  \<open>notification\<close> unless the caller gives another.
\<close>

fun broadcast_loop ::
  "env \<Rightarrow> world \<Rightarrow> nat \<Rightarrow> pyval \<Rightarrow> string \<Rightarrow> string list \<Rightarrow> (string \<times> pyval) list
     \<Rightarrow> (exn + (string \<times> pyval) list) \<times> world" where
  "broadcast_loop e w self c t [] responses = (Inr responses, w)"
| "broadcast_loop e w self c t (agent_name # rest) responses =
     (case send_message e w self agent_name c t of
        (Inl x, w') \<Rightarrow> (Inl x, w')
      | (Inr response, w') \<Rightarrow>
          broadcast_loop e w' self c t rest (AList.update agent_name response responses))"

definition broadcast :: "env \<Rightarrow> world \<Rightarrow> nat \<Rightarrow> pyval \<Rightarrow> string \<Rightarrow> (exn + (string \<times> pyval) list) \<times> world" where
  "broadcast e w self c t =
     broadcast_loop e w self c t (map fst (agents_registry (agents w ! self))) []"

text \<open>
  The network \<open>CoordinatorAgent.__init__\<close> builds: the coordinator (reference 0), its EC2
  agent (1) and its S3 agent (2), each registered with the two others.
\<close>

definition setup_a2a_network :: "world \<Rightarrow> world" where
  "setup_a2a_network w =
     register_agent (register_agent (register_agent (register_agent
       (register_agent (register_agent w 0 1) 0 2) 1 0) 1 2) 2 0) 2 1"

definition coordinator_network :: world where
  "coordinator_network =
     setup_a2a_network
       \<lparr>agents = [new_agent ''CoordinatorAgent'' CoordinatorAgent,
                  new_agent ''EC2Agent'' EC2Agent,
                  new_agent ''S3Agent'' S3Agent],
        clock = 0, trace = []\<rparr>"

section \<open>A stub environment\<close>

text \<open>
  A stub provider for concrete runs: three regions, the instance \<open>i-0abc1234def\<close> in the
  second one (the probe of the first region raises), two buckets, and a clock whose readings
  are given by \<open>ts\<close>.
\<close>

definition stub_env :: "(nat \<Rightarrow> string) \<Rightarrow> env" where
  "stub_env ts =
     \<lparr>timestamp_at = ts,
      isoformat_at = (\<lambda>n. ''2026-01-01T00:00:00''),
      boto_describe_regions = Inr [''us-east-1'', ''eu-west-1'', ''ap-south-1''],
      boto_describe_instances =
        (\<lambda>region instance_id.
           if region = ''us-east-1'' then Inl ''InvalidInstanceID.NotFound''
           else if region = ''eu-west-1'' \<and> instance_id = ''i-0abc1234def''
           then Inr [PDict [(''ReservationId'', PStr ''r-1'')]]
           else Inr []),
      boto_describe_all_instances = Inr [[(''instance_id'', PStr ''i-0abc1234def''), (''state'', PStr ''running'')]],
      boto_instance_info = (\<lambda>i. Inr None),
      boto_run_instance = (\<lambda>instance_type region. [(''success'', PBool True), (''region'', PStr region)]),
      boto_stop_instances = (\<lambda>region instance_id. None),
      boto_terminate_instances = (\<lambda>region instance_id. None),
      boto_list_buckets = Inr [[(''name'', PStr ''logs'')], [(''name'', PStr ''assets'')]],
      boto_head_bucket = (\<lambda>b. False),
      boto_client_region = Some ''us-east-2'',
      boto_create_bucket = (\<lambda>bucket_name region. None),
      boto_delete_bucket = (\<lambda>bucket_name. None),
      boto_list_objects = (\<lambda>bucket_name. Inr [])\<rparr>"

definition frozen_clock :: "nat \<Rightarrow> string" where
  "frozen_clock n = ''1730000000.0''"

definition ticking_clock :: "nat \<Rightarrow> string" where
  "ticking_clock n = (if n = 1 then ''1730000000.000001'' else ''1730000000.000002'')"

text \<open>An agent that is registered with itself, for a concrete run.\<close>

definition loopback_network :: world where
  "loopback_network =
     register_agent \<lparr>agents = [new_agent ''Echo'' BaseAgent], clock = 0, trace = []\<rparr> 0 0"

text \<open>A query that does ask for a count, for a concrete run.\<close>

definition count_query :: message where
  "count_query =
     \<lparr>msg_id = ''CoordinatorAgent-S3Agent-1730000000.0'', sender = ''CoordinatorAgent'',
      receiver = ''S3Agent'', content = PDict [(''query'', PStr ''Bucket count'')],
      msg_type = ''query'', timestamp = ''2026-01-01T00:00:00''\<rparr>"

section \<open>The coordinator\<close>

text \<open>
  \<open>re.search\<close>: the match at the leftmost position where the pattern matches; \<open>m\<close> is the
  pattern, matched at the start of a text.
\<close>

primrec re_search :: "(string \<Rightarrow> string option) \<Rightarrow> string \<Rightarrow> string option" where
  "re_search m [] = m []"
| "re_search m (c # cs) = (case m (c # cs) of Some r \<Rightarrow> Some r | None \<Rightarrow> re_search m cs)"

text \<open>
  \<open>_extract_instance_id\<close>: the pattern \<open>i-[a-f0-9]{8,17}\<close>, searched in the text as it is.
  The repetition is greedy: as many of the characters as there are, up to 17.
\<close>

definition is_hex :: "char \<Rightarrow> bool" where
  "is_hex c = (c \<in> set ''abcdef0123456789'')"

definition match_instance_id :: "string \<Rightarrow> string option" where
  "match_instance_id s =
     (if prefix ''i-'' s then
        (let run = takeWhile is_hex (drop 2 s) in
         if 8 \<le> length run then Some (''i-'' @ take 17 run) else None)
      else None)"

definition extract_instance_id :: "string \<Rightarrow> string option" where
  "extract_instance_id text = re_search match_instance_id text"

text \<open>
  \<open>_extract_bucket_name\<close>: three patterns, tried in order on the lower-cased text, each a
  keyword, white space, and the group \<open>([a-z0-9][a-z0-9\-]{1,61}[a-z0-9])\<close>. The group
  takes a first character, then the longest run of at most 62 name characters that ends in a
  letter or digit and has at least two characters. The white space must be followed by the
  group at once, so it is the whole run of white space after the keyword. In \<open>named?\<close> the
  \<open>d\<close> is tried first.
\<close>

definition is_alnum :: "char \<Rightarrow> bool" where
  "is_alnum c = (c \<in> set ''abcdefghijklmnopqrstuvwxyz0123456789'')"

definition is_name_char :: "char \<Rightarrow> bool" where
  "is_name_char c = (is_alnum c \<or> c = CHR ''-'')"

definition match_name :: "string \<Rightarrow> string option" where
  "match_name s =
     (case s of
        [] \<Rightarrow> None
      | c # cs \<Rightarrow>
          if is_alnum c then
            (let run = take 62 (takeWhile is_name_char cs);
                 body = rev (dropWhile (\<lambda>x. x = CHR ''-'') (rev run))
             in if 2 \<le> length body then Some (c # body) else None)
          else None)"

definition match_keyword :: "string \<Rightarrow> string \<Rightarrow> string option" where
  "match_keyword kw s =
     (if prefix kw s then
        (case drop (length kw) s of
           [] \<Rightarrow> None
         | c # cs \<Rightarrow> if is_space c then match_name (dropWhile is_space cs) else None)
      else None)"

definition match_named :: "string \<Rightarrow> string option" where
  "match_named s =
     (case match_keyword ''named'' s of Some b \<Rightarrow> Some b | None \<Rightarrow> match_keyword ''name'' s)"

definition extract_bucket_name :: "string \<Rightarrow> string option" where
  "extract_bucket_name text =
     (let t = lower text in
      case re_search (match_keyword ''bucket'') t of
        Some b \<Rightarrow> Some b
      | None \<Rightarrow>
          (case re_search (match_keyword ''in'') t of
             Some b \<Rightarrow> Some b
           | None \<Rightarrow> re_search match_named t))"

text \<open>\<open>params.get(key)\<close>, the truth value of its result, and \<open>x or y\<close> on such results.\<close>

definition param_get :: "(string \<times> string option) list \<Rightarrow> string \<Rightarrow> string option" where
  "param_get params k = (case map_of params k of None \<Rightarrow> None | Some v \<Rightarrow> v)"

definition str_truthy :: "string option \<Rightarrow> bool" where
  "str_truthy v = (case v of None \<Rightarrow> False | Some s \<Rightarrow> s \<noteq> [])"

definition py_or :: "string option \<Rightarrow> string option \<Rightarrow> string option" where
  "py_or a b = (if str_truthy a then a else b)"

text \<open>
  The enrichment step \<open>if info and info.get('count', 0) > 0: result['tip'] = f"..."\<close>.
  Comparing with 0 is defined for an integer and a boolean and raises \<open>TypeError\<close> for the
  other values.
\<close>

fun py_gt_zero :: "pyval \<Rightarrow> exn + bool" where
  "py_gt_zero (PInt n) = Inr (0 < n)"
| "py_gt_zero (PBool b) = Inr b"
| "py_gt_zero v = Inl TypeError"

definition count_positive :: "pyval \<Rightarrow> exn + bool" where
  "count_positive info =
     (if \<not> truthy info then Inr False
      else (case py_get info ''count'' (PInt 0) of
              Inl x \<Rightarrow> Inl x
            | Inr v \<Rightarrow> py_gt_zero v))"

fun show_nat :: "nat \<Rightarrow> string" where
  "show_nat n =
     (if n < 10 then [''0123456789'' ! n]
      else show_nat (n div 10) @ [''0123456789'' ! (n mod 10)])"

definition show_int :: "int \<Rightarrow> string" where
  "show_int n = (if n < 0 then ''-'' @ show_nat (nat (- n)) else show_nat (nat n))"

text \<open>The text of \<open>{info['count']}\<close> in the tip; the step reaches it for an integer or a
  boolean only.\<close>

definition count_text :: "pyval \<Rightarrow> string" where
  "count_text info =
     (case py_get info ''count'' PNone of
        Inr (PInt n) \<Rightarrow> show_int n
      | Inr (PBool b) \<Rightarrow> (if b then ''True'' else ''False'')
      | _ \<Rightarrow> [])"

text \<open>The light bulb that starts a tip, as its four bytes in UTF-8.\<close>

definition bulb :: string where
  "bulb = [CHR 0xF0, CHR 0x9F, CHR 0x92, CHR 0xA1]"

definition add_tip :: "pyval \<Rightarrow> string \<Rightarrow> (string \<times> pyval) list \<Rightarrow> exn + (string \<times> pyval) list" where
  "add_tip info tip result =
     (case count_positive info of
        Inl x \<Rightarrow> Inl x
      | Inr positive \<Rightarrow> Inr (if positive then AList.update ''tip'' (PStr tip) result else result))"

text \<open>
  \<open>CoordinatorAgent._handle_ec2_action\<close>; \<open>self\<close> is the reference of the coordinator.
  \<open>create_instance\<close> reads its parameters from the intent only.
\<close>

definition handle_ec2_action :: "env \<Rightarrow> world \<Rightarrow> nat \<Rightarrow> intent \<Rightarrow> string \<Rightarrow> (exn + pyval) \<times> world" where
  "handle_ec2_action e w self i user_input =
     (let params = parameters i in
      if action i = ''create_instance'' then
        (let instance_type = (case map_of params ''instance_type'' of
                                None \<Rightarrow> Some ''t2.micro''
                              | Some v \<Rightarrow> v);
             region = param_get params ''region''
         in case query_agent e w self ''S3Agent'' ''How many buckets does user have?'' of
              (Inl x, w1) \<Rightarrow> (Inl x, w1)
            | (Inr s3_info, w1) \<Rightarrow>
                (case create_instance e w1 instance_type region of
                   (result, w2) \<Rightarrow>
                     (case add_tip s3_info
                             (bulb @ '' You have '' @ count_text s3_info
                                @ '' S3 bucket(s). You can use them with this instance!'')
                             result of
                        Inl x \<Rightarrow> (Inl x, w2)
                      | Inr r \<Rightarrow> (Inr (PDict r), w2))))
      else if action i = ''list_instances'' then
        send_message e w self ''EC2Agent'' (PDict [(''action'', PStr ''list_instances'')]) ''request''
      else if action i = ''stop_instance'' then
        (let instance_id = py_or (param_get params ''instance_id'') (extract_instance_id user_input) in
         case instance_id of
           None \<Rightarrow> (Inr (error_result ''Please provide instance ID''), w)
         | Some x \<Rightarrow>
             if x = [] then (Inr (error_result ''Please provide instance ID''), w)
             else (case stop_instance e w x of (r, w1) \<Rightarrow> (Inr r, w1)))
      else if action i = ''terminate_instance'' then
        (let instance_id = py_or (param_get params ''instance_id'') (extract_instance_id user_input) in
         case instance_id of
           None \<Rightarrow> (Inr (error_result ''Please provide instance ID''), w)
         | Some x \<Rightarrow>
             if x = [] then (Inr (error_result ''Please provide instance ID''), w)
             else (case terminate_instance e w x of (r, w1) \<Rightarrow> (Inr r, w1)))
      else (Inr (error_result (''Unknown EC2 action: '' @ action i)), w))"

text \<open>
  \<open>CoordinatorAgent._handle_s3_action\<close>. \<open>create_bucket\<close> takes the bucket name from the
  intent only and returns the error before anything else when it is missing or empty.
\<close>

definition handle_s3_action :: "env \<Rightarrow> world \<Rightarrow> nat \<Rightarrow> intent \<Rightarrow> string \<Rightarrow> (exn + pyval) \<times> world" where
  "handle_s3_action e w self i user_input =
     (let params = parameters i in
      if action i = ''create_bucket'' then
        (case param_get params ''bucket_name'' of
           None \<Rightarrow>
             (Inr (error_result (''Please provide a bucket name. Example: '' @ [CHR 0x27]
                     @ ''create s3 bucket my-bucket-name'' @ [CHR 0x27])), w)
         | Some bucket_name \<Rightarrow>
             if bucket_name = [] then
               (Inr (error_result (''Please provide a bucket name. Example: '' @ [CHR 0x27]
                       @ ''create s3 bucket my-bucket-name'' @ [CHR 0x27])), w)
             else
               (let region = param_get params ''region'' in
                case query_agent e w self ''EC2Agent'' ''How many instances does user have?'' of
                  (Inl x, w1) \<Rightarrow> (Inl x, w1)
                | (Inr ec2_info, w1) \<Rightarrow>
                    (case create_bucket e w1 bucket_name region of
                       (result, w2) \<Rightarrow>
                         (case add_tip ec2_info
                                 (bulb @ '' You have '' @ count_text ec2_info
                                    @ '' EC2 instance(s). You can access this bucket from them!'')
                                 result of
                            Inl x \<Rightarrow> (Inl x, w2)
                          | Inr r \<Rightarrow> (Inr (PDict r), w2)))))
      else if action i = ''list_buckets'' then
        send_message e w self ''S3Agent'' (PDict [(''action'', PStr ''list_buckets'')]) ''request''
      else if action i = ''list_objects'' then
        (let bucket_name = py_or (param_get params ''bucket_name'') (extract_bucket_name user_input) in
         case bucket_name of
           None \<Rightarrow> (Inr (error_result ''Please provide bucket name''), w)
         | Some b \<Rightarrow>
             if b = [] then (Inr (error_result ''Please provide bucket name''), w)
             else (case list_objects e w b of (r, w1) \<Rightarrow> (Inr r, w1)))
      else if action i = ''delete_bucket'' then
        (let bucket_name = py_or (param_get params ''bucket_name'') (extract_bucket_name user_input) in
         case bucket_name of
           None \<Rightarrow> (Inr (error_result ''Please provide bucket name''), w)
         | Some b \<Rightarrow>
             if b = [] then (Inr (error_result ''Please provide bucket name''), w)
             else (case delete_bucket e w b of (r, w1) \<Rightarrow> (Inr r, w1)))
      else (Inr (error_result (''Unknown S3 action: '' @ action i)), w))"

section \<open>Notions used in the statements and proofs\<close>

text \<open>
  The lines \<open>receive_message\<close> has printed, in order: one per call of \<open>receive_message\<close>.
\<close>

fun is_received :: "event \<Rightarrow> bool" where
  "is_received (Received a b c) = True"
| "is_received ev = False"

definition received_events :: "world \<Rightarrow> event list" where
  "received_events w = filter is_received (trace w)"

text \<open>A world that differs from \<open>w\<close> by requests to the provider only.\<close>

definition provider_only :: "world \<Rightarrow> world \<Rightarrow> bool" where
  "provider_only w w' =
     (agents w' = agents w \<and> clock w' = clock w \<and> received_events w' = received_events w)"

text \<open>The world in which the receiver's handler runs, when the receiver is registered.\<close>

definition delivered :: "env \<Rightarrow> world \<Rightarrow> nat \<Rightarrow> string \<Rightarrow> pyval \<Rightarrow> string \<Rightarrow> nat \<Rightarrow> world" where
  "delivered e w self r c t target =
     (let m = fst (new_message e w (name (agents w ! self)) r c t);
          w1 = emit (Sent (name (agents w ! self)) r t) (log_message self m (snd (new_message e w (name (agents w ! self)) r c t)))
      in emit (Received (name (agents w1 ! target)) (sender m) (msg_type m))
           (log_message target m (enqueue target m w1)))"

text \<open>Names, classes and registries stay as they are.\<close>

definition same_wiring :: "world \<Rightarrow> world \<Rightarrow> bool" where
  "same_wiring w w' =
     (\<forall>k. name (agents w' ! k) = name (agents w ! k)
        \<and> cls (agents w' ! k) = cls (agents w ! k)
        \<and> agents_registry (agents w' ! k) = agents_registry (agents w ! k))"

text \<open>The one line \<open>receive_message\<close> prints for a send, none for an unknown receiver.\<close>

definition receipt :: "world \<Rightarrow> nat \<Rightarrow> string \<Rightarrow> string \<Rightarrow> event list" where
  "receipt w self t r =
     (case map_of (agents_registry (agents w ! self)) r of
        None \<Rightarrow> []
      | Some k \<Rightarrow> [Received (name (agents w ! k)) (name (agents w ! self)) t])"

text \<open>A probe succeeds when it does not raise and its \<open>Reservations\<close> are not empty.\<close>

definition probe_succeeds :: "env \<Rightarrow> string \<Rightarrow> string \<Rightarrow> bool" where
  "probe_succeeds e instance_id region =
     (case boto_describe_instances e region instance_id of
        Inr reservations \<Rightarrow> reservations \<noteq> []
      | Inl err \<Rightarrow> False)"

text \<open>The regions probed: those before the first success, and the first success itself.\<close>

definition probed :: "env \<Rightarrow> string \<Rightarrow> string list \<Rightarrow> string list" where
  "probed e instance_id regions =
     takeWhile (\<lambda>r. \<not> probe_succeeds e instance_id r) regions
     @ (case find (probe_succeeds e instance_id) regions of None \<Rightarrow> [] | Some r \<Rightarrow> [r])"


section \<open>The classifiers are total and return well-formed intents\<close>

lemma fallback_parse_rules_shape:
  "fallback_parse_rules l = Some i \<Longrightarrow>
     service i \<in> {''ec2'', ''s3''} \<and> action i \<noteq> [] \<and> parameters i = []"
  by (auto simp: fallback_parse_rules_def mk_intent_def split: if_splits)

lemma fast_ec2_rules_shape:
  "fast_ec2_rules l = Some i \<Longrightarrow> service i = ''ec2'' \<and> action i \<noteq> [] \<and> parameters i = []"
  by (auto simp: fast_ec2_rules_def mk_intent_def split: if_splits)

lemma fast_s3_rules_shape:
  "fast_s3_rules l = Some i \<Longrightarrow> service i = ''s3'' \<and> action i \<noteq> [] \<and> parameters i = []"
  by (auto simp: fast_s3_rules_def mk_intent_def split: if_splits)

lemma fallback_parse_shape:
  "service (fallback_parse t) \<in> {''ec2'', ''s3'', ''unknown''}
   \<and> action (fallback_parse t) \<noteq> [] \<and> parameters (fallback_parse t) = []"
proof (cases "fallback_parse_rules (lower t)")
  case None
  then show ?thesis by (simp add: fallback_parse_def mk_intent_def Let_def)
next
  case (Some i)
  with fallback_parse_rules_shape [OF Some] show ?thesis
    by (auto simp: fallback_parse_def Let_def)
qed

lemma fast_fallback_shape:
  "service (fast_fallback t) \<in> {''ec2'', ''s3'', ''unknown''}
   \<and> action (fast_fallback t) \<noteq> [] \<and> parameters (fast_fallback t) = []"
proof (cases "fast_ec2_rules (lower t)")
  case (Some i)
  with fast_ec2_rules_shape [OF Some] show ?thesis
    by (auto simp: fast_fallback_def Let_def)
next
  case None
  note ec2 = None
  show ?thesis
  proof (cases "fast_s3_rules (lower t)")
    case (Some i)
    with ec2 fast_s3_rules_shape [OF Some] show ?thesis
      by (auto simp: fast_fallback_def Let_def)
  next
    case None
    with ec2 show ?thesis by (simp add: fast_fallback_def mk_intent_def Let_def)
  qed
qed

text \<open>
  C10. Both rule-based classifiers are functions of the text alone (no state, no I/O), defined
  for every text, the empty one included, and the intent they return has a service among
  ec2 (compute), s3 (storage) and unknown, an action that is not the empty string, and a
  parameters mapping (always the empty one).
\<close>

theorem classify_total_wellformed:
  "(service (fallback_parse t) \<in> {''ec2'', ''s3'', ''unknown''}
    \<and> action (fallback_parse t) \<noteq> [] \<and> parameters (fallback_parse t) = [])
   \<and> (service (fast_fallback t) \<in> {''ec2'', ''s3'', ''unknown''}
    \<and> action (fast_fallback t) \<noteq> [] \<and> parameters (fast_fallback t) = [])"
  using fallback_parse_shape [of t] fast_fallback_shape [of t] by blast

section \<open>When a text is a greeting\<close>

lemmas text_defs = lower_def lower_char_def strip_def is_space_def startswith_def

lemma fallback_parse_rules_not_greeting:
  "fallback_parse_rules l = Some i \<Longrightarrow> action i \<noteq> ''greeting''"
  by (auto simp: fallback_parse_rules_def mk_intent_def split: if_splits)

lemma fast_ec2_rules_not_greeting:
  "fast_ec2_rules l = Some i \<Longrightarrow> action i \<noteq> ''greeting''"
  by (auto simp: fast_ec2_rules_def mk_intent_def split: if_splits)

lemma fast_s3_rules_not_greeting:
  "fast_s3_rules l = Some i \<Longrightarrow> action i \<noteq> ''greeting''"
  by (auto simp: fast_s3_rules_def mk_intent_def split: if_splits)

lemma fallback_parse_greeting:
  assumes "action (fallback_parse t) = ''greeting''"
  shows "starts_with_greeting (lower t) \<and> no_domain_keyword (lower t)"
proof (cases "fallback_parse_rules (lower t)")
  case None
  with assms show ?thesis
    by (simp add: fallback_parse_def Let_def mk_intent_def split: if_splits)
next
  case (Some i)
  with assms fallback_parse_rules_not_greeting [OF Some] show ?thesis
    by (simp add: fallback_parse_def Let_def)
qed

lemma fast_fallback_greeting:
  assumes "action (fast_fallback t) = ''greeting''"
  shows "list_ex (\<lambda>g. contains g (lower t)) fast_greetings
         \<and> fast_ec2_rules (lower t) = None \<and> fast_s3_rules (lower t) = None"
proof (cases "fast_ec2_rules (lower t)")
  case (Some i)
  with assms fast_ec2_rules_not_greeting [OF Some] show ?thesis
    by (simp add: fast_fallback_def Let_def)
next
  case None
  note ec2 = None
  show ?thesis
  proof (cases "fast_s3_rules (lower t)")
    case (Some i)
    with assms ec2 fast_s3_rules_not_greeting [OF Some] show ?thesis
      by (simp add: fast_fallback_def Let_def)
  next
    case None
    with assms ec2 show ?thesis
      by (simp add: fast_fallback_def Let_def mk_intent_def split: if_splits)
  qed
qed

text \<open>
  Both classifiers try the domain-keyword rules before the greeting rule.
\<close>

lemma lower_could: "lower ''could you create an instance'' = ''could you create an instance''"
  by (simp add: text_defs)

lemma fallback_parse_could_you: "fallback_parse ''could you create an instance'' = mk_intent ''ec2'' ''create_instance''"
  by (simp add: fallback_parse_def Let_def lower_could fallback_parse_rules_def)

lemma fast_fallback_could_you: "fast_fallback ''could you create an instance'' = mk_intent ''ec2'' ''create_instance''"
  by (simp add: fast_fallback_def Let_def lower_could fast_ec2_rules_def)

text \<open>
  C4, as the code has it. \<open>_fallback_parse\<close> classifies a text as a greeting only when
  the lower-cased, stripped text equals one of hi, hello, hey, help or starts with one of them
  followed by a space, and the text contains none of ec2, instance, s3, bucket.
  \<open>_fast_fallback\<close> classifies a text as a greeting only when none of its domain rules
  returned and a greeting phrase occurs somewhere in the text. In both, the domain-keyword rules
  come first: "could you create an instance" is ec2 / create\_instance.
\<close>

theorem greeting_rule:
  "(action (fallback_parse t) = ''greeting'' \<longrightarrow>
      list_ex (\<lambda>g. strip (lower t) = g \<or> prefix (g @ '' '') (strip (lower t)))
        [''hi'', ''hello'', ''hey'', ''help'']
      \<and> \<not> contains ''ec2'' (lower t) \<and> \<not> contains ''instance'' (lower t)
      \<and> \<not> contains ''s3'' (lower t) \<and> \<not> contains ''bucket'' (lower t))
   \<and> (action (fast_fallback t) = ''greeting'' \<longrightarrow>
      list_ex (\<lambda>g. contains g (lower t)) fast_greetings
      \<and> fast_ec2_rules (lower t) = None \<and> fast_s3_rules (lower t) = None)
   \<and> fallback_parse ''could you create an instance'' = mk_intent ''ec2'' ''create_instance''
   \<and> fast_fallback ''could you create an instance'' = mk_intent ''ec2'' ''create_instance''"
  using fallback_parse_greeting [of t] fast_fallback_greeting [of t] fallback_parse_could_you fast_fallback_could_you
  by (simp add: starts_with_greeting_def greeting_tokens_def no_domain_keyword_def startswith_def)

lemma lower_hello: "lower ''Hello there'' = ''hello there''"
  by (simp add: text_defs)

lemma fallback_parse_hello: "action (fallback_parse ''Hello there'') = ''greeting''"
  by (simp add: fallback_parse_def Let_def lower_hello fallback_parse_rules_def
      starts_with_greeting_def greeting_tokens_def no_domain_keyword_def mk_intent_def
      strip_def is_space_def startswith_def)

lemma fast_fallback_hello: "action (fast_fallback ''Hello there'') = ''greeting''"
  by (simp add: fast_fallback_def Let_def lower_hello fast_ec2_rules_def fast_s3_rules_def
      fast_greetings_def mk_intent_def)

theorem greeting_rule_witness:
  "action (fallback_parse ''Hello there'') = ''greeting''
   \<and> list_ex (\<lambda>g. strip (lower ''Hello there'') = g \<or> prefix (g @ '' '') (strip (lower ''Hello there'')))
        [''hi'', ''hello'', ''hey'', ''help'']
   \<and> \<not> contains ''instance'' (lower ''Hello there'')
   \<and> action (fast_fallback ''Hello there'') = ''greeting''
   \<and> list_ex (\<lambda>g. contains g (lower ''Hello there'')) fast_greetings"
  using greeting_rule [of "''Hello there''"] fallback_parse_hello fast_fallback_hello by blast

text \<open>
  C4 as stated fails for \<open>_fast_fallback\<close>: "this instance" contains the domain keyword
  instance and starts with no greeting phrase, yet it is classified as a greeting ("hi" occurs
  inside "this").
\<close>

lemma lower_this: "lower ''this instance'' = ''this instance''"
  by (simp add: text_defs)

theorem fast_fallback_greeting_counterexample:
  "service (fast_fallback ''this instance'') = ''unknown''
   \<and> action (fast_fallback ''this instance'') = ''greeting''
   \<and> contains ''instance'' (lower ''this instance'')
   \<and> \<not> list_ex (\<lambda>g. prefix g (strip (lower ''this instance''))) fast_greetings"
  by (simp add: fast_fallback_def Let_def lower_this fast_ec2_rules_def fast_s3_rules_def
      fast_greetings_def mk_intent_def strip_def is_space_def)

section \<open>The region mapping is total, with a fixed default\<close>













section \<open>What a handler and a delivery change\<close>

lemma emit_simps:
  "agents (emit ev w) = agents w" "clock (emit ev w) = clock w" "trace (emit ev w) = trace w @ [ev]"
  by (simp_all add: emit_def)

lemma received_events_emit:
  "received_events (emit ev w) = received_events w @ (if is_received ev then [ev] else [])"
  by (simp add: received_events_def emit_def)

lemma provider_only_refl: "provider_only w w"
  by (simp add: provider_only_def)

lemma provider_only_emit: "provider_only w (emit (Provider p) w)"
  by (simp add: provider_only_def emit_simps received_events_emit)

lemma list_instances_frame: "list_instances e w = (r, w') \<Longrightarrow> w' = emit (Provider DescribeAllInstances) w"
  by (auto simp: list_instances_def)

lemma list_buckets_frame: "list_buckets e w = (r, w') \<Longrightarrow> w' = emit (Provider ListBuckets) w"
  by (auto simp: list_buckets_def)

lemma get_instance_info_frame:
  "get_instance_info e w i = (r, w') \<Longrightarrow> w' = emit (Provider (GetInstanceInfo i)) w"
  by (auto simp: get_instance_info_def)

lemma bucket_exists_frame:
  "bucket_exists e w b = (r, w') \<Longrightarrow> w' = emit (Provider (HeadBucket b)) w"
  by (auto simp: bucket_exists_def)

lemma snd_ops [simp]:
  "snd (list_instances e w) = emit (Provider DescribeAllInstances) w"
  "snd (list_buckets e w) = emit (Provider ListBuckets) w"
  "snd (get_instance_info e w i) = emit (Provider (GetInstanceInfo i)) w"
  "snd (bucket_exists e w b) = emit (Provider (HeadBucket b)) w"
  by (simp_all add: list_instances_def list_buckets_def get_instance_info_def bucket_exists_def)

lemma ec2_handle_message_frame: "provider_only w (snd (ec2_handle_message e w m))"
  by (simp add: ec2_handle_message_def split_beta provider_only_refl provider_only_emit
      split: sum.splits)

lemma s3_handle_message_frame: "provider_only w (snd (s3_handle_message e w m))"
  by (simp add: s3_handle_message_def split_beta provider_only_refl provider_only_emit
      split: sum.splits)

lemma handle_message_frame: "provider_only w (snd (handle_message e w k m))"
  by (simp add: handle_message_def provider_only_refl ec2_handle_message_frame
      s3_handle_message_frame split: agent_class.splits)

lemma send_message_unregistered:
  "map_of (agents_registry (agents w ! self)) r = None \<Longrightarrow>
     send_message e w self r c t = (Inr PNone, emit (NotFound r) w)"
  by (simp add: send_message_def)

lemma send_message_registered:
  "map_of (agents_registry (agents w ! self)) r = Some target \<Longrightarrow>
     send_message e w self r c t =
       handle_message e (delivered e w self r c t target) target
         (fst (new_message e w (name (agents w ! self)) r c t))"
  by (simp add: send_message_def receive_message_def delivered_def Let_def split_beta)

lemma new_message_fields:
  "sender (fst (new_message e w s r c t)) = s"
  "receiver (fst (new_message e w s r c t)) = r"
  "content (fst (new_message e w s r c t)) = c"
  "msg_type (fst (new_message e w s r c t)) = t"
  "agents (snd (new_message e w s r c t)) = agents w"
  "trace (snd (new_message e w s r c t)) = trace w"
  "clock (snd (new_message e w s r c t)) = clock w + 2"
  by (simp_all add: new_message_def)

lemma name_nth_update:
  "name ((xs[i := (xs ! i)\<lparr>conversation_history := h\<rparr>]) ! k) = name (xs ! k)"
  "name ((xs[i := (xs ! i)\<lparr>message_queue := q\<rparr>]) ! k) = name (xs ! k)"
proof -
  show "name ((xs[i := (xs ! i)\<lparr>conversation_history := h\<rparr>]) ! k) = name (xs ! k)"
    by (cases "i < length xs"; cases "k = i"; simp add: list_update_beyond)
  show "name ((xs[i := (xs ! i)\<lparr>message_queue := q\<rparr>]) ! k) = name (xs ! k)"
    by (cases "i < length xs"; cases "k = i"; simp add: list_update_beyond)
qed

lemma delivered_history_sender:
  assumes "self < length (agents w)" and "target \<noteq> self"
  shows "conversation_history (agents (delivered e w self r c t target) ! self)
         = conversation_history (agents w ! self) @ [to_dict (fst (new_message e w (name (agents w ! self)) r c t))]"
  using assms
  by (simp add: delivered_def Let_def emit_simps log_message_def enqueue_def new_message_fields)

lemma delivered_receiver:
  assumes "target < length (agents w)" and "target \<noteq> self"
  shows "conversation_history (agents (delivered e w self r c t target) ! target)
         = conversation_history (agents w ! target) @ [to_dict (fst (new_message e w (name (agents w ! self)) r c t))]"
    and "message_queue (agents (delivered e w self r c t target) ! target)
         = message_queue (agents w ! target) @ [fst (new_message e w (name (agents w ! self)) r c t)]"
  using assms
  by (simp_all add: delivered_def Let_def emit_simps log_message_def enqueue_def new_message_fields)

lemma delivered_received_events:
  "received_events (delivered e w self r c t target)
   = received_events w @ [Received (name (agents w ! target)) (name (agents w ! self)) t]"
  by (simp add: delivered_def Let_def emit_simps received_events_emit log_message_def
      enqueue_def new_message_fields received_events_def name_nth_update)

lemma send_message_provider_only:
  assumes "map_of (agents_registry (agents w ! self)) r = Some target"
  shows "provider_only (delivered e w self r c t target) (snd (send_message e w self r c t))"
  by (simp add: send_message_registered [OF assms] handle_message_frame)

text \<open>
  C2, as the code has it. A send to a name that is not in the sender's registry returns
  \<open>None\<close> (a value, not an exception), builds no message (the clock is not read), calls no
  \<open>receive_message\<close> and leaves every agent, so every history, as it was. A send to a
  registered receiver that is another agent than the sender calls the receiver's
  \<open>receive_message\<close> once, inside the call, and adds exactly one entry, the message, to the
  sender's history, to the receiver's history and to the receiver's queue.
\<close>

theorem send_message_effect:
  "(map_of (agents_registry (agents w ! self)) r = None \<longrightarrow>
      fst (send_message e w self r c t) = Inr PNone
      \<and> agents (snd (send_message e w self r c t)) = agents w
      \<and> clock (snd (send_message e w self r c t)) = clock w
      \<and> received_events (snd (send_message e w self r c t)) = received_events w)
   \<and> (map_of (agents_registry (agents w ! self)) r = Some target \<longrightarrow>
      self < length (agents w) \<longrightarrow> target < length (agents w) \<longrightarrow> target \<noteq> self \<longrightarrow>
        conversation_history (agents (snd (send_message e w self r c t)) ! self)
          = conversation_history (agents w ! self)
            @ [to_dict (fst (new_message e w (name (agents w ! self)) r c t))]
      \<and> conversation_history (agents (snd (send_message e w self r c t)) ! target)
          = conversation_history (agents w ! target)
            @ [to_dict (fst (new_message e w (name (agents w ! self)) r c t))]
      \<and> message_queue (agents (snd (send_message e w self r c t)) ! target)
          = message_queue (agents w ! target)
            @ [fst (new_message e w (name (agents w ! self)) r c t)]
      \<and> received_events (snd (send_message e w self r c t))
          = received_events w @ [Received (name (agents w ! target)) (name (agents w ! self)) t])"
proof (intro conjI impI)
  assume none: "map_of (agents_registry (agents w ! self)) r = None"
  show "fst (send_message e w self r c t) = Inr PNone"
    by (simp add: send_message_unregistered [OF none])
  show "agents (snd (send_message e w self r c t)) = agents w"
    by (simp add: send_message_unregistered [OF none] emit_simps)
  show "clock (snd (send_message e w self r c t)) = clock w"
    by (simp add: send_message_unregistered [OF none] emit_simps)
  show "received_events (snd (send_message e w self r c t)) = received_events w"
    by (simp add: send_message_unregistered [OF none] received_events_emit)
next
  assume some: "map_of (agents_registry (agents w ! self)) r = Some target"
    and self: "self < length (agents w)" and target: "target < length (agents w)"
    and neq: "target \<noteq> self"
  note po = send_message_provider_only [OF some, of e c t, unfolded provider_only_def]
  show "conversation_history (agents (snd (send_message e w self r c t)) ! self)
          = conversation_history (agents w ! self)
            @ [to_dict (fst (new_message e w (name (agents w ! self)) r c t))]"
    using po delivered_history_sender [OF self neq] by simp
  show "conversation_history (agents (snd (send_message e w self r c t)) ! target)
          = conversation_history (agents w ! target)
            @ [to_dict (fst (new_message e w (name (agents w ! self)) r c t))]"
    using po delivered_receiver(1) [OF target neq] by simp
  show "message_queue (agents (snd (send_message e w self r c t)) ! target)
          = message_queue (agents w ! target)
            @ [fst (new_message e w (name (agents w ! self)) r c t)]"
    using po delivered_receiver(2) [OF target neq] by simp
  show "received_events (snd (send_message e w self r c t))
          = received_events w @ [Received (name (agents w ! target)) (name (agents w ! self)) t]"
    using po delivered_received_events by simp
qed

lemma coordinator_network_eq:
  "coordinator_network =
     \<lparr>agents =
        [\<lparr>name = ''CoordinatorAgent'', cls = CoordinatorAgent, message_queue = [],
          agents_registry = [(''EC2Agent'', 1), (''S3Agent'', 2)], conversation_history = []\<rparr>,
         \<lparr>name = ''EC2Agent'', cls = EC2Agent, message_queue = [],
          agents_registry = [(''CoordinatorAgent'', 0), (''S3Agent'', 2)], conversation_history = []\<rparr>,
         \<lparr>name = ''S3Agent'', cls = S3Agent, message_queue = [],
          agents_registry = [(''CoordinatorAgent'', 0), (''EC2Agent'', 1)], conversation_history = []\<rparr>],
      clock = 0,
      trace = [Registered ''CoordinatorAgent'' ''EC2Agent'', Registered ''CoordinatorAgent'' ''S3Agent'',
               Registered ''EC2Agent'' ''CoordinatorAgent'', Registered ''EC2Agent'' ''S3Agent'',
               Registered ''S3Agent'' ''CoordinatorAgent'', Registered ''S3Agent'' ''EC2Agent'']\<rparr>"
  by (simp add: coordinator_network_def setup_a2a_network_def register_agent_def emit_def Let_def
      new_agent_def)

lemma coordinator_registry:
  "map_of (agents_registry (agents coordinator_network ! 0)) ''Nobody'' = None"
  "map_of (agents_registry (agents coordinator_network ! 0)) ''S3Agent'' = Some 2"
  "map_of (agents_registry (agents coordinator_network ! 0)) ''EC2Agent'' = Some 1"
  "length (agents coordinator_network) = 3"
  by (simp_all add: coordinator_network_eq)

theorem send_message_effect_witness:
  "map_of (agents_registry (agents coordinator_network ! 0)) ''Nobody'' = None
   \<and> fst (send_message (stub_env frozen_clock) coordinator_network 0 ''Nobody'' PNone ''request'') = Inr PNone
   \<and> agents (snd (send_message (stub_env frozen_clock) coordinator_network 0 ''Nobody'' PNone ''request''))
       = agents coordinator_network
   \<and> map_of (agents_registry (agents coordinator_network ! 0)) ''S3Agent'' = Some 2
   \<and> 0 < length (agents coordinator_network) \<and> 2 < length (agents coordinator_network) \<and> (2::nat) \<noteq> 0
   \<and> length (conversation_history (agents (snd (send_message (stub_env frozen_clock) coordinator_network 0 ''S3Agent'' PNone ''request'')) ! 0))
       = Suc (length (conversation_history (agents coordinator_network ! 0)))
   \<and> length (conversation_history (agents (snd (send_message (stub_env frozen_clock) coordinator_network 0 ''S3Agent'' PNone ''request'')) ! 2))
       = Suc (length (conversation_history (agents coordinator_network ! 2)))
   \<and> received_events (snd (send_message (stub_env frozen_clock) coordinator_network 0 ''S3Agent'' PNone ''request''))
       = received_events coordinator_network
         @ [Received (name (agents coordinator_network ! 2)) (name (agents coordinator_network ! 0)) ''request'']"
  using send_message_effect [of coordinator_network 0 "''Nobody''" "stub_env frozen_clock" PNone "''request''" 2]
    send_message_effect [of coordinator_network 0 "''S3Agent''" "stub_env frozen_clock" PNone "''request''" 2]
    coordinator_registry
  by simp

text \<open>
  C2 as stated fails for an agent that is registered with itself: it is both parties of its
  send, and its history grows by two entries.
\<close>

theorem send_to_self_counterexample:
  "map_of (agents_registry (agents loopback_network ! 0)) ''Echo'' = Some 0
   \<and> conversation_history (agents loopback_network ! 0) = []
   \<and> length (conversation_history
        (agents (snd (send_message (stub_env frozen_clock) loopback_network 0 ''Echo'' PNone ''request'')) ! 0)) = 2"
  by (simp add: send_message_def receive_message_def handle_message_def new_message_def
      log_message_def enqueue_def emit_def loopback_network_def register_agent_def new_agent_def
      Let_def)

section \<open>Message ids\<close>

lemma dash_suffix_unique:
  assumes "xs @ d # ts = ys @ d # ts'" and "d \<notin> set ts" and "d \<notin> set ts'"
  shows "ts = ts'"
proof -
  from assms(1) have "rev ts @ d # rev xs = rev ts' @ d # rev ys"
    by (metis rev.simps(2) rev_append append_assoc append_Cons append_Nil)
  then have "takeWhile (\<lambda>x. x \<noteq> d) (rev ts @ d # rev xs) = takeWhile (\<lambda>x. x \<noteq> d) (rev ts' @ d # rev ys)"
    by simp
  moreover have "takeWhile (\<lambda>x. x \<noteq> d) (rev ts @ d # rev xs) = rev ts"
    using assms(2) by (subst takeWhile_append2) auto
  moreover have "takeWhile (\<lambda>x. x \<noteq> d) (rev ts' @ d # rev ys) = rev ts'"
    using assms(3) by (subst takeWhile_append2) auto
  ultimately show ?thesis by simp
qed

lemma msg_id_new_message:
  "msg_id (fst (new_message e w s r c t)) = (s @ ''-'' @ r) @ CHR ''-'' # timestamp_at e (Suc (clock w))"
  by (simp add: new_message_def)

text \<open>
  C8, as the code has it. The id of a message is sender, receiver and the text of the clock
  reading taken when the message is built, joined by dashes. Two messages whose clock readings
  differ (their texts have no dash, as the text of a positive timestamp) have different ids,
  whoever sends them; two messages from the same sender to the same receiver built at equal
  clock readings have the same id. So the ids are as distinct as the clock readings are.
\<close>

theorem message_id_distinct:
  "(CHR ''-'' \<notin> set (timestamp_at e (Suc (clock w))) \<longrightarrow>
    CHR ''-'' \<notin> set (timestamp_at e (Suc (clock w'))) \<longrightarrow>
    timestamp_at e (Suc (clock w)) \<noteq> timestamp_at e (Suc (clock w')) \<longrightarrow>
      msg_id (fst (new_message e w s r c t)) \<noteq> msg_id (fst (new_message e w' s' r' c' t')))
   \<and> (timestamp_at e (Suc (clock w)) = timestamp_at e (Suc (clock w')) \<longrightarrow>
      msg_id (fst (new_message e w s r c t)) = msg_id (fst (new_message e w' s r c' t')))"
proof -
  have "msg_id (fst (new_message e w s r c t)) \<noteq> msg_id (fst (new_message e w' s' r' c' t'))"
    if "CHR ''-'' \<notin> set (timestamp_at e (Suc (clock w)))"
      and "CHR ''-'' \<notin> set (timestamp_at e (Suc (clock w')))"
      and "timestamp_at e (Suc (clock w)) \<noteq> timestamp_at e (Suc (clock w'))"
  proof
    assume "msg_id (fst (new_message e w s r c t)) = msg_id (fst (new_message e w' s' r' c' t'))"
    then have "(s @ ''-'' @ r) @ CHR ''-'' # timestamp_at e (Suc (clock w))
             = (s' @ ''-'' @ r') @ CHR ''-'' # timestamp_at e (Suc (clock w'))"
      by (simp only: msg_id_new_message)
    from dash_suffix_unique [OF this that(1) that(2)] that(3) show False by simp
  qed
  moreover have "msg_id (fst (new_message e w s r c t)) = msg_id (fst (new_message e w' s r c' t'))"
    if "timestamp_at e (Suc (clock w)) = timestamp_at e (Suc (clock w'))"
    using that by (simp add: new_message_def)
  ultimately show ?thesis by blast
qed

theorem message_id_distinct_witness:
  "CHR ''-'' \<notin> set (timestamp_at (stub_env ticking_clock) (Suc (clock coordinator_network)))
   \<and> CHR ''-'' \<notin> set (timestamp_at (stub_env ticking_clock)
        (Suc (clock (snd (new_message (stub_env ticking_clock) coordinator_network ''CoordinatorAgent'' ''S3Agent'' PNone ''query'')))))
   \<and> timestamp_at (stub_env ticking_clock) (Suc (clock coordinator_network))
      \<noteq> timestamp_at (stub_env ticking_clock)
        (Suc (clock (snd (new_message (stub_env ticking_clock) coordinator_network ''CoordinatorAgent'' ''S3Agent'' PNone ''query''))))
   \<and> msg_id (fst (new_message (stub_env ticking_clock) coordinator_network ''CoordinatorAgent'' ''S3Agent'' PNone ''query''))
      \<noteq> msg_id (fst (new_message (stub_env ticking_clock)
            (snd (new_message (stub_env ticking_clock) coordinator_network ''CoordinatorAgent'' ''S3Agent'' PNone ''query''))
            ''CoordinatorAgent'' ''S3Agent'' PNone ''query''))
   \<and> timestamp_at (stub_env frozen_clock) (Suc (clock coordinator_network))
      = timestamp_at (stub_env frozen_clock) (Suc (clock coordinator_network))
   \<and> msg_id (fst (new_message (stub_env frozen_clock) coordinator_network ''CoordinatorAgent'' ''S3Agent'' PNone ''query''))
      = msg_id (fst (new_message (stub_env frozen_clock) coordinator_network ''CoordinatorAgent'' ''S3Agent'' (PInt 1) ''request''))"
proof -
  let ?e = "stub_env ticking_clock"
  let ?w' = "snd (new_message ?e coordinator_network ''CoordinatorAgent'' ''S3Agent'' PNone ''query'')"
  have c0: "clock coordinator_network = 0"
    by (simp add: coordinator_network_eq)
  have c1: "clock ?w' = 2"
    by (simp add: new_message_fields c0)
  have t0: "timestamp_at ?e (Suc (clock coordinator_network)) = ''1730000000.000001''"
    by (simp add: c0 stub_env_def ticking_clock_def)
  have t1: "timestamp_at ?e (Suc (clock ?w')) = ''1730000000.000002''"
    unfolding c1 by (simp add: stub_env_def ticking_clock_def)
  have h1: "CHR ''-'' \<notin> set (timestamp_at ?e (Suc (clock coordinator_network)))"
    by (simp add: t0)
  have h2: "CHR ''-'' \<notin> set (timestamp_at ?e (Suc (clock ?w')))"
    by (simp add: t1)
  have h3: "timestamp_at ?e (Suc (clock coordinator_network)) \<noteq> timestamp_at ?e (Suc (clock ?w'))"
    by (simp add: t0 t1)
  from h1 h2 h3
    message_id_distinct [of ?e coordinator_network ?w' "''CoordinatorAgent''" "''S3Agent''" PNone "''query''"
      "''CoordinatorAgent''" "''S3Agent''" PNone "''query''"]
    message_id_distinct [of "stub_env frozen_clock" coordinator_network coordinator_network
      "''CoordinatorAgent''" "''S3Agent''" PNone "''query''" "''CoordinatorAgent''" "''S3Agent''" "PInt 1" "''request''"]
  show ?thesis by blast
qed

lemma lower_buckets_query:
  "lower ''How many buckets does user have?'' = ''how many buckets does user have?''"
  by (simp add: text_defs)

lemma lower_instances_query:
  "lower ''How many instances does user have?'' = ''how many instances does user have?''"
  by (simp add: text_defs)

lemma no_count_in_queries:
  "\<not> contains ''count'' ''how many buckets does user have?''"
  "\<not> contains ''count'' ''how many instances does user have?''"
  "\<not> contains ''running'' ''how many buckets does user have?''"
  "\<not> contains ''running'' ''how many instances does user have?''"
  "\<not> contains ''storage'' ''how many buckets does user have?''"
  "\<not> contains ''storage'' ''how many instances does user have?''"
  "\<not> contains ''size'' ''how many buckets does user have?''"
  "\<not> contains ''size'' ''how many instances does user have?''"
  by simp_all

text \<open>
  C8 as stated fails when the clock gives the same reading twice (its resolution is finite and
  it can be set back): two queries from the coordinator to the S3 agent, both delivered, carry
  the same id.
\<close>

theorem repeated_clock_counterexample:
  "map msg_id (message_queue (agents
      (snd (query_agent (stub_env frozen_clock)
         (snd (query_agent (stub_env frozen_clock) coordinator_network 0 ''S3Agent''
                ''How many buckets does user have?''))
         0 ''S3Agent'' ''How many buckets does user have?'')) ! 2))
   = [''CoordinatorAgent-S3Agent-1730000000.0'', ''CoordinatorAgent-S3Agent-1730000000.0'']"
  by (simp add: coordinator_network_eq query_agent_def send_message_def receive_message_def
      handle_message_def s3_handle_message_def new_message_def log_message_def enqueue_def
      emit_def Let_def lower_buckets_query no_count_in_queries stub_env_def frozen_clock_def)

section \<open>Broadcast\<close>

text \<open>
  The keys of a registry stay pairwise different, as those of a dict: \<open>register_agent\<close>
  replaces the entry of a name that is already there.
\<close>

lemma register_agent_keys_distinct:
  assumes "distinct (map fst (agents_registry (agents w ! k)))"
  shows "distinct (map fst (agents_registry (agents (register_agent w self other) ! k)))"
proof (cases "k = self \<and> self < length (agents w)")
  case True
  with assms show ?thesis
    by (simp add: register_agent_def Let_def emit_simps distinct_update)
next
  case False
  then have "agents (register_agent w self other) ! k = agents w ! k"
    by (cases "self < length (agents w)")
      (auto simp: register_agent_def Let_def emit_simps list_update_beyond)
  with assms show ?thesis by simp
qed

lemma same_wiring_refl: "same_wiring w w"
  by (simp add: same_wiring_def)

lemma same_wiring_trans: "same_wiring w w1 \<Longrightarrow> same_wiring w1 w2 \<Longrightarrow> same_wiring w w2"
  by (simp add: same_wiring_def)

lemma wiring_nth_update:
  "cls ((xs[i := (xs ! i)\<lparr>conversation_history := h\<rparr>]) ! k) = cls (xs ! k)"
  "cls ((xs[i := (xs ! i)\<lparr>message_queue := q\<rparr>]) ! k) = cls (xs ! k)"
  "agents_registry ((xs[i := (xs ! i)\<lparr>conversation_history := h\<rparr>]) ! k) = agents_registry (xs ! k)"
  "agents_registry ((xs[i := (xs ! i)\<lparr>message_queue := q\<rparr>]) ! k) = agents_registry (xs ! k)"
proof -
  show "cls ((xs[i := (xs ! i)\<lparr>conversation_history := h\<rparr>]) ! k) = cls (xs ! k)"
    by (cases "i < length xs"; cases "k = i"; simp add: list_update_beyond)
  show "cls ((xs[i := (xs ! i)\<lparr>message_queue := q\<rparr>]) ! k) = cls (xs ! k)"
    by (cases "i < length xs"; cases "k = i"; simp add: list_update_beyond)
  show "agents_registry ((xs[i := (xs ! i)\<lparr>conversation_history := h\<rparr>]) ! k) = agents_registry (xs ! k)"
    by (cases "i < length xs"; cases "k = i"; simp add: list_update_beyond)
  show "agents_registry ((xs[i := (xs ! i)\<lparr>message_queue := q\<rparr>]) ! k) = agents_registry (xs ! k)"
    by (cases "i < length xs"; cases "k = i"; simp add: list_update_beyond)
qed

lemma same_wiring_steps:
  "same_wiring w w1 \<Longrightarrow> same_wiring w (emit ev w1)"
  "same_wiring w w1 \<Longrightarrow> same_wiring w (log_message i m w1)"
  "same_wiring w w1 \<Longrightarrow> same_wiring w (enqueue i m w1)"
  "same_wiring w (snd (new_message e w s r c t))"
  by (simp_all add: same_wiring_def emit_simps log_message_def enqueue_def new_message_fields
      name_nth_update wiring_nth_update)

lemma delivered_wiring: "same_wiring w (delivered e w self r c t target)"
  unfolding delivered_def Let_def by (intro same_wiring_steps)

lemma send_message_wiring: "same_wiring w (snd (send_message e w self r c t))"
proof (cases "map_of (agents_registry (agents w ! self)) r")
  case None
  then show ?thesis
    by (simp add: send_message_unregistered same_wiring_def emit_simps)
next
  case (Some target)
  from send_message_provider_only [OF Some, of e c t]
  have "agents (snd (send_message e w self r c t)) = agents (delivered e w self r c t target)"
    by (simp add: provider_only_def)
  with delivered_wiring [of w e self r c t target] show ?thesis
    by (simp add: same_wiring_def)
qed

lemma send_message_received:
  "received_events (snd (send_message e w self r c t)) = received_events w @ receipt w self t r"
proof (cases "map_of (agents_registry (agents w ! self)) r")
  case None
  then show ?thesis
    by (simp add: send_message_unregistered receipt_def received_events_emit)
next
  case (Some target)
  from send_message_provider_only [OF Some, of e c t] delivered_received_events [of e w self r c t target]
  show ?thesis
    by (simp add: provider_only_def receipt_def Some)
qed

lemma receipt_wiring: "same_wiring w w1 \<Longrightarrow> receipt w1 self t r = receipt w self t r"
  by (simp add: receipt_def same_wiring_def split: option.splits)

lemma broadcast_loop_ok:
  assumes "broadcast_loop e w self c t ns acc = (Inr res, w')"
    and "distinct ns" and "set ns \<inter> fst ` set acc = {}"
  shows "map fst res = map fst acc @ ns
         \<and> received_events w' = received_events w @ concat (map (receipt w self t) ns)
         \<and> same_wiring w w'"
  using assms
proof (induction ns arbitrary: w acc)
  case Nil
  then show ?case by (simp add: same_wiring_refl)
next
  case (Cons n ns)
  obtain v w1 where send: "send_message e w self n c t = (v, w1)"
    by (cases "send_message e w self n c t")
  with Cons.prems(1) obtain response where v: "v = Inr response"
    by (cases v) auto
  from send have w1: "w1 = snd (send_message e w self n c t)" by simp
  have wiring: "same_wiring w w1"
    unfolding w1 by (rule send_message_wiring)
  have rec1: "received_events w1 = received_events w @ receipt w self t n"
    unfolding w1 by (rule send_message_received)
  from Cons.prems(1) send v
  have loop: "broadcast_loop e w1 self c t ns (AList.update n response acc) = (Inr res, w')"
    by simp
  from Cons.prems(3) have notin: "n \<notin> fst ` set acc" by auto
  then have keys: "map fst (AList.update n response acc) = map fst acc @ [n]"
    by (simp add: update_keys)
  from Cons.prems(2,3) arg_cong [OF keys, of set]
  have disj: "set ns \<inter> fst ` set (AList.update n response acc) = {}"
    by auto
  from Cons.prems(2) have dist: "distinct ns" by simp
  from Cons.IH [OF loop dist disj]
  have ih: "map fst res = map fst (AList.update n response acc) @ ns"
    "received_events w' = received_events w1 @ concat (map (receipt w1 self t) ns)"
    "same_wiring w1 w'"
    by simp_all
  have "map (receipt w1 self t) ns = map (receipt w self t) ns"
    using receipt_wiring [OF wiring] by simp
  with ih rec1 keys same_wiring_trans [OF wiring ih(3)] show ?case
    by simp
qed

lemma update_absent: "k \<notin> fst ` set al \<Longrightarrow> AList.update k v al = al @ [(k, v)]"
  by (induction al) auto

lemma handle_message_other:
  "msg_type m \<noteq> ''query'' \<Longrightarrow> msg_type m \<noteq> ''request'' \<Longrightarrow>
     fst (handle_message e w k m) = Inr base_handle_message"
  by (simp add: handle_message_def ec2_handle_message_def s3_handle_message_def
      split: agent_class.splits)

lemma send_message_other:
  assumes "t \<noteq> ''query''" and "t \<noteq> ''request''"
    and "map_of (agents_registry (agents w ! self)) r = Some k"
  shows "fst (send_message e w self r c t) = Inr base_handle_message"
  using assms
  by (simp add: send_message_registered handle_message_other new_message_fields)

lemma broadcast_loop_other:
  assumes "t \<noteq> ''query''" and "t \<noteq> ''request''"
    and "distinct ns" and "set ns \<inter> fst ` set acc = {}"
    and "set ns \<subseteq> fst ` set (agents_registry (agents w ! self))"
  shows "fst (broadcast_loop e w self c t ns acc) = Inr (acc @ map (\<lambda>n. (n, base_handle_message)) ns)"
  using assms(3-5)
proof (induction ns arbitrary: w acc)
  case Nil
  then show ?case by simp
next
  case (Cons n ns)
  from Cons.prems(3) obtain k where k: "map_of (agents_registry (agents w ! self)) n = Some k"
    by (cases "map_of (agents_registry (agents w ! self)) n") (auto simp: map_of_eq_None_iff)
  obtain v w1 where send: "send_message e w self n c t = (v, w1)"
    by (cases "send_message e w self n c t")
  from send_message_other [OF assms(1,2) k, of e c] send
  have v: "v = Inr base_handle_message" by simp
  from send have w1: "w1 = snd (send_message e w self n c t)" by simp
  have wiring: "same_wiring w w1"
    unfolding w1 by (rule send_message_wiring)
  from Cons.prems(2) have notin: "n \<notin> fst ` set acc" by auto
  then have upd: "AList.update n base_handle_message acc = acc @ [(n, base_handle_message)]"
    by (rule update_absent)
  from Cons.prems(1,2) have disj: "set ns \<inter> fst ` set (acc @ [(n, base_handle_message)]) = {}"
    by auto
  from Cons.prems(3) wiring
  have sub: "set ns \<subseteq> fst ` set (agents_registry (agents w1 ! self))"
    by (simp add: same_wiring_def)
  from Cons.prems(1) have dist: "distinct ns" by simp
  from Cons.IH [OF dist disj sub] send v upd show ?case
    by simp
qed

lemma broadcast_loop_abort:
  assumes "broadcast_loop e w self c t ns acc = (Inl x, w')"
  shows "\<exists>j<length ns. received_events w'
           = received_events w @ concat (map (receipt w self t) (take (Suc j) ns))"
  using assms
proof (induction ns arbitrary: w acc)
  case Nil
  then show ?case by simp
next
  case (Cons n ns)
  obtain v w1 where send: "send_message e w self n c t = (v, w1)"
    by (cases "send_message e w self n c t")
  from send have w1: "w1 = snd (send_message e w self n c t)" by simp
  have wiring: "same_wiring w w1"
    unfolding w1 by (rule send_message_wiring)
  have rec1: "received_events w1 = received_events w @ receipt w self t n"
    unfolding w1 by (rule send_message_received)
  show ?case
  proof (cases v)
    case (Inl y)
    with Cons.prems send have "w' = w1" by simp
    with rec1 have "received_events w'
           = received_events w @ concat (map (receipt w self t) (take (Suc 0) (n # ns)))"
      by simp
    then show ?thesis by blast
  next
    case (Inr response)
    with Cons.prems send
    have loop: "broadcast_loop e w1 self c t ns (AList.update n response acc) = (Inl x, w')"
      by simp
    from Cons.IH [OF loop] obtain j where j: "j < length ns"
      and rec: "received_events w' = received_events w1 @ concat (map (receipt w1 self t) (take (Suc j) ns))"
      by blast
    have "map (receipt w1 self t) (take (Suc j) ns) = map (receipt w self t) (take (Suc j) ns)"
      using receipt_wiring [OF wiring] by simp
    with rec rec1 have "received_events w'
           = received_events w @ concat (map (receipt w self t) (take (Suc (Suc j)) (n # ns)))"
      by simp
    with j show ?thesis
      by (metis Suc_less_eq length_Cons)
  qed
qed

lemma receipts_of_registry:
  assumes "distinct (map fst reg)" and "reg = agents_registry (agents w ! self)"
    and "set xs \<subseteq> set reg"
  shows "concat (map (receipt w self t) (map fst xs))
         = map (\<lambda>(n, k). Received (name (agents w ! k)) (name (agents w ! self)) t) xs"
  using assms(3)
proof (induction xs)
  case Nil
  then show ?case by simp
next
  case (Cons p xs)
  obtain n k where p: "p = (n, k)" by (cases p)
  with Cons.prems have "(n, k) \<in> set reg" by simp
  with assms(1) have "map_of reg n = Some k" by simp
  with assms(2) have "receipt w self t n = [Received (name (agents w ! k)) (name (agents w ! self)) t]"
    by (simp add: receipt_def)
  with Cons p show ?case by simp
qed

text \<open>
  C3, as the code has it. Let the sender's registry have N entries (its keys are pairwise
  different, as those of a dict are). When \<open>broadcast\<close> returns, it has called each peer's
  \<open>receive_message\<close> exactly once, in the order of the registry, and the mapping it returns
  has exactly the N peer names as keys, in that order. It always returns, with the
  acknowledgement of every peer, when the message type is neither \<open>query\<close> nor
  \<open>request\<close> (the default is \<open>notification\<close>). When a peer's handler raises, the exception
  leaves \<open>broadcast\<close>: the peers up to that one have received the message once each, the
  remaining ones have not, and no mapping is returned.
\<close>

theorem broadcast_effect:
  "distinct (map fst (agents_registry (agents w ! self))) \<longrightarrow>
     (broadcast e w self c t = (Inr res, w') \<longrightarrow>
        map fst res = map fst (agents_registry (agents w ! self))
        \<and> received_events w' = received_events w
            @ map (\<lambda>(n, k). Received (name (agents w ! k)) (name (agents w ! self)) t)
                (agents_registry (agents w ! self)))
     \<and> (t \<noteq> ''query'' \<longrightarrow> t \<noteq> ''request'' \<longrightarrow>
        fst (broadcast e w self c t)
          = Inr (map (\<lambda>(n, k). (n, base_handle_message)) (agents_registry (agents w ! self))))
     \<and> (broadcast e w self c t = (Inl x, w'') \<longrightarrow>
        (\<exists>j<length (agents_registry (agents w ! self)).
           received_events w'' = received_events w
            @ map (\<lambda>(n, k). Received (name (agents w ! k)) (name (agents w ! self)) t)
                (take (Suc j) (agents_registry (agents w ! self)))))"
proof (intro impI conjI)
  let ?reg = "agents_registry (agents w ! self)"
  assume dist: "distinct (map fst ?reg)"
  {
    assume "broadcast e w self c t = (Inr res, w')"
    then have loop: "broadcast_loop e w self c t (map fst ?reg) [] = (Inr res, w')"
      by (simp add: broadcast_def)
    from broadcast_loop_ok [OF loop dist]
    have keys: "map fst res = map fst ?reg"
      and rec: "received_events w' = received_events w @ concat (map (receipt w self t) (map fst ?reg))"
      by simp_all
    from keys show "map fst res = map fst ?reg" .
    from rec receipts_of_registry [OF dist refl, of ?reg t]
    show "received_events w' = received_events w
            @ map (\<lambda>(n, k). Received (name (agents w ! k)) (name (agents w ! self)) t) ?reg"
      by simp
  }
  {
    assume t: "t \<noteq> ''query''" "t \<noteq> ''request''"
    have "fst (broadcast_loop e w self c t (map fst ?reg) [])
            = Inr ([] @ map (\<lambda>n. (n, base_handle_message)) (map fst ?reg))"
      by (rule broadcast_loop_other [OF t dist]) simp_all
    then show "fst (broadcast e w self c t) = Inr (map (\<lambda>(n, k). (n, base_handle_message)) ?reg)"
      by (simp add: broadcast_def split_def comp_def)
  }
  {
    assume "broadcast e w self c t = (Inl x, w'')"
    then have loop: "broadcast_loop e w self c t (map fst ?reg) [] = (Inl x, w'')"
      by (simp add: broadcast_def)
    from broadcast_loop_abort [OF loop] obtain j where j: "j < length ?reg"
      and rec: "received_events w'' = received_events w
          @ concat (map (receipt w self t) (take (Suc j) (map fst ?reg)))"
      by auto
    have "set (take (Suc j) ?reg) \<subseteq> set ?reg"
      by (rule set_take_subset)
    from receipts_of_registry [OF dist refl this, of t] rec
    have "received_events w'' = received_events w
            @ map (\<lambda>(n, k). Received (name (agents w ! k)) (name (agents w ! self)) t)
                (take (Suc j) ?reg)"
      by (simp add: take_map)
    with j show "\<exists>j<length ?reg. received_events w'' = received_events w
            @ map (\<lambda>(n, k). Received (name (agents w ! k)) (name (agents w ! self)) t)
                (take (Suc j) ?reg)"
      by blast
  }
qed

lemma received_events_coordinator_network: "received_events coordinator_network = []"
  by (simp add: coordinator_network_eq received_events_def)

lemma coordinator_peers:
  "agents_registry (agents coordinator_network ! 0) = [(''EC2Agent'', 1), (''S3Agent'', 2)]"
  "name (agents coordinator_network ! 0) = ''CoordinatorAgent''"
  "name (agents coordinator_network ! 1) = ''EC2Agent''"
  "name (agents coordinator_network ! 2) = ''S3Agent''"
  by (simp_all add: coordinator_network_eq)

text \<open>
  C3 as stated fails when a handler raises: broadcasting the text "status" as a query from the
  coordinator, the EC2 agent's handler raises \<open>AttributeError\<close> (a string has no
  \<open>get\<close>); the S3 agent never receives the message and no mapping is returned.
\<close>

theorem broadcast_abort_counterexample:
  "map fst (agents_registry (agents coordinator_network ! 0)) = [''EC2Agent'', ''S3Agent'']
   \<and> fst (broadcast (stub_env frozen_clock) coordinator_network 0 (PStr ''status'') ''query'')
       = Inl AttributeError
   \<and> received_events (snd (broadcast (stub_env frozen_clock) coordinator_network 0 (PStr ''status'') ''query''))
       = [Received ''EC2Agent'' ''CoordinatorAgent'' ''query'']
   \<and> message_queue (agents (snd (broadcast (stub_env frozen_clock) coordinator_network 0 (PStr ''status'') ''query'')) ! 2)
       = []"
  by (simp add: coordinator_network_eq broadcast_def send_message_def receive_message_def
      handle_message_def ec2_handle_message_def new_message_def log_message_def enqueue_def
      emit_def Let_def received_events_def)

lemma broadcast_status_query:
  "fst (broadcast (stub_env frozen_clock) coordinator_network 0 (PStr ''status'') ''query'')
       = Inl AttributeError"
  by (simp add: coordinator_network_eq broadcast_def send_message_def receive_message_def
      handle_message_def ec2_handle_message_def new_message_def log_message_def enqueue_def
      emit_def Let_def)

lemma coordinator_peer_one: "name (agents coordinator_network ! Suc 0) = ''EC2Agent''"
  by (simp add: coordinator_network_eq)

theorem broadcast_effect_witness:
  "distinct (map fst (agents_registry (agents coordinator_network ! 0)))
   \<and> fst (broadcast (stub_env frozen_clock) coordinator_network 0 (PStr ''maintenance at noon'') ''notification'')
       = Inr [(''EC2Agent'', base_handle_message), (''S3Agent'', base_handle_message)]
   \<and> received_events (snd (broadcast (stub_env frozen_clock) coordinator_network 0 (PStr ''maintenance at noon'') ''notification''))
       = [Received ''EC2Agent'' ''CoordinatorAgent'' ''notification'',
          Received ''S3Agent'' ''CoordinatorAgent'' ''notification'']
   \<and> fst (broadcast (stub_env frozen_clock) coordinator_network 0 (PStr ''status'') ''query'')
       = Inl AttributeError
   \<and> (\<exists>j<length (agents_registry (agents coordinator_network ! 0)).
         received_events (snd (broadcast (stub_env frozen_clock) coordinator_network 0 (PStr ''status'') ''query''))
         = received_events coordinator_network
           @ map (\<lambda>(n, k). Received (name (agents coordinator_network ! k)) (name (agents coordinator_network ! 0)) ''query'')
               (take (Suc j) (agents_registry (agents coordinator_network ! 0))))"
proof -
  let ?e = "stub_env frozen_clock"
  let ?b = "broadcast ?e coordinator_network 0 (PStr ''maintenance at noon'') ''notification''"
  let ?q = "broadcast ?e coordinator_network 0 (PStr ''status'') ''query''"
  let ?res = "[(''EC2Agent'', base_handle_message), (''S3Agent'', base_handle_message)]"
  have dist: "distinct (map fst (agents_registry (agents coordinator_network ! 0)))"
    by (simp add: coordinator_peers)
  have t: "''notification'' \<noteq> ''query''" "''notification'' \<noteq> ''request''"
    by simp_all
  note thm1 = broadcast_effect [of coordinator_network 0 ?e "PStr ''maintenance at noon''"
      "''notification''" ?res "snd ?b" AttributeError "snd ?q"]
  from thm1 dist t have fst_b: "fst ?b = Inr ?res"
    by (simp add: coordinator_peers)
  then have b: "?b = (Inr ?res, snd ?b)"
    by (metis prod.collapse)
  from thm1 dist b have rec_b: "received_events (snd ?b)
       = [Received ''EC2Agent'' ''CoordinatorAgent'' ''notification'',
          Received ''S3Agent'' ''CoordinatorAgent'' ''notification'']"
    by (simp add: coordinator_peers coordinator_peer_one received_events_coordinator_network)
  note thm2 = broadcast_effect [of coordinator_network 0 ?e "PStr ''status''"
      "''query''" ?res "snd ?q" AttributeError "snd ?q"]
  have q: "?q = (Inl AttributeError, snd ?q)"
    using broadcast_status_query by (metis prod.collapse)
  from thm2 dist q have "\<exists>j<length (agents_registry (agents coordinator_network ! 0)).
         received_events (snd ?q)
         = received_events coordinator_network
           @ map (\<lambda>(n, k). Received (name (agents coordinator_network ! k)) (name (agents coordinator_network ! 0)) ''query'')
               (take (Suc j) (agents_registry (agents coordinator_network ! 0)))"
    by blast
  with dist fst_b rec_b broadcast_status_query show ?thesis
    by blast
qed

section \<open>The region locator\<close>

lemma probe_regions_find:
  "probe_regions e i regions w =
     (find (probe_succeeds e i) regions,
      w\<lparr>trace := trace w @ map (\<lambda>r. Provider (DescribeInstances r i)) (probed e i regions)\<rparr>)"
proof (induction regions arbitrary: w)
  case Nil
  then show ?case by (simp add: probed_def)
next
  case (Cons r rs)
  show ?case
  proof (cases "probe_succeeds e i r")
    case True
    then show ?thesis
      by (auto simp: probe_succeeds_def probed_def emit_def Let_def split: sum.splits)
  next
    case False
    then have "probe_regions e i (r # rs) w = probe_regions e i rs (emit (Provider (DescribeInstances r i)) w)"
      by (auto simp: probe_succeeds_def Let_def split: sum.splits)
    with Cons [of "emit (Provider (DescribeInstances r i)) w"] False show ?thesis
      by (simp add: probed_def emit_def)
  qed
qed

lemma find_instance_region_listed:
  assumes "boto_describe_regions e = Inr regions"
  shows "find_instance_region e w i =
     (Inr (find (probe_succeeds e i) regions),
      w\<lparr>trace := trace w @ Provider DescribeRegions
           # map (\<lambda>r. Provider (DescribeInstances r i)) (probed e i regions)\<rparr>)"
  using assms by (simp add: find_instance_region_def Let_def probe_regions_find emit_def)

lemma find_None_iff_all_fail: "(\<forall>r\<in>set regions. \<not> P r) \<Longrightarrow> find P regions = None"
  by (simp add: find_None_iff)

text \<open>
  C5. When the provider lists the regions, the locator probes them in that order, returns the
  first region whose probe succeeds and makes no probe after it, and returns \<open>None\<close> when no
  probe succeeds; then \<open>terminate_instance\<close> makes no further request and returns
  \<open>{"error": "Instance X not found in any region"}\<close>.
\<close>

theorem region_locator_first_match:
  "boto_describe_regions e = Inr regions \<longrightarrow>
     fst (find_instance_region e w i) = Inr (find (probe_succeeds e i) regions)
     \<and> trace (snd (find_instance_region e w i))
         = trace w @ Provider DescribeRegions
             # map (\<lambda>r. Provider (DescribeInstances r i))
                 (takeWhile (\<lambda>r. \<not> probe_succeeds e i r) regions
                  @ (case find (probe_succeeds e i) regions of None \<Rightarrow> [] | Some r \<Rightarrow> [r]))
     \<and> ((\<forall>r\<in>set regions. \<not> probe_succeeds e i r) \<longrightarrow>
          fst (find_instance_region e w i) = Inr None
          \<and> terminate_instance e w i
              = (PDict [(''error'', PStr (''Instance '' @ i @ '' not found in any region''))],
                 snd (find_instance_region e w i)))"
proof (intro impI conjI)
  assume listed: "boto_describe_regions e = Inr regions"
  note loc = find_instance_region_listed [OF listed, of w i]
  show "fst (find_instance_region e w i) = Inr (find (probe_succeeds e i) regions)"
    by (simp add: loc)
  show "trace (snd (find_instance_region e w i))
         = trace w @ Provider DescribeRegions
             # map (\<lambda>r. Provider (DescribeInstances r i))
                 (takeWhile (\<lambda>r. \<not> probe_succeeds e i r) regions
                  @ (case find (probe_succeeds e i) regions of None \<Rightarrow> [] | Some r \<Rightarrow> [r]))"
    by (simp add: loc probed_def)
  assume "\<forall>r\<in>set regions. \<not> probe_succeeds e i r"
  then have none: "find (probe_succeeds e i) regions = None"
    by (rule find_None_iff_all_fail)
  show "fst (find_instance_region e w i) = Inr None"
    by (simp add: loc none)
  show "terminate_instance e w i
              = (PDict [(''error'', PStr (''Instance '' @ i @ '' not found in any region''))],
                 snd (find_instance_region e w i))"
    by (simp add: terminate_instance_def loc none error_result_def)
qed

lemma stub_regions: "boto_describe_regions (stub_env ts) = Inr [''us-east-1'', ''eu-west-1'', ''ap-south-1'']"
  by (simp add: stub_env_def)

lemma stub_probes:
  "\<not> probe_succeeds (stub_env ts) ''i-0abc1234def'' ''us-east-1''"
  "probe_succeeds (stub_env ts) ''i-0abc1234def'' ''eu-west-1''"
  "\<not> probe_succeeds (stub_env ts) ''rsc-unknown'' ''us-east-1''"
  "\<not> probe_succeeds (stub_env ts) ''rsc-unknown'' ''eu-west-1''"
  "\<not> probe_succeeds (stub_env ts) ''rsc-unknown'' ''ap-south-1''"
  by (simp_all add: probe_succeeds_def stub_env_def)

theorem region_locator_first_match_witness:
  "boto_describe_regions (stub_env frozen_clock) = Inr [''us-east-1'', ''eu-west-1'', ''ap-south-1'']
   \<and> fst (find_instance_region (stub_env frozen_clock) coordinator_network ''i-0abc1234def'')
       = Inr (Some ''eu-west-1'')
   \<and> trace (snd (find_instance_region (stub_env frozen_clock) coordinator_network ''i-0abc1234def''))
       = trace coordinator_network
         @ [Provider DescribeRegions,
            Provider (DescribeInstances ''us-east-1'' ''i-0abc1234def''),
            Provider (DescribeInstances ''eu-west-1'' ''i-0abc1234def'')]
   \<and> list_all (\<lambda>r. \<not> probe_succeeds (stub_env frozen_clock) ''rsc-unknown'' r)
        [''us-east-1'', ''eu-west-1'', ''ap-south-1'']
   \<and> fst (terminate_instance (stub_env frozen_clock) coordinator_network ''rsc-unknown'')
       = PDict [(''error'', PStr ''Instance rsc-unknown not found in any region'')]"
  using region_locator_first_match [of "stub_env frozen_clock" "[''us-east-1'', ''eu-west-1'', ''ap-south-1'']"
      coordinator_network "''i-0abc1234def''"]
    region_locator_first_match [of "stub_env frozen_clock" "[''us-east-1'', ''eu-west-1'', ''ap-south-1'']"
      coordinator_network "''rsc-unknown''"]
    stub_regions [of frozen_clock] stub_probes [of frozen_clock]
  by simp

section \<open>The enrichment queries of the coordinator\<close>

lemma enrichment_keywords:
  "\<not> contains ''instance'' ''how many buckets does user have?''"
  "contains ''bucket'' ''how many buckets does user have?''"
  "contains ''instance'' ''how many instances does user have?''"
  "\<not> contains ''bucket'' ''how many instances does user have?''"
  by simp_all

lemma ec2_handle_enrichment:
  assumes "content m = PDict [(''query'', PStr q)]" and "msg_type m = ''query''"
    and "q = ''How many buckets does user have?'' \<or> q = ''How many instances does user have?''"
  shows "ec2_handle_message e w m = (Inr base_handle_message, w)"
proof -
  from assms(3) have "lower q = ''how many buckets does user have?'' \<or> lower q = ''how many instances does user have?''"
    using lower_buckets_query lower_instances_query by auto
  with assms(1,2) show ?thesis
    by (auto simp add: ec2_handle_message_def no_count_in_queries enrichment_keywords
        simp del: contains.simps)
qed

lemma s3_handle_enrichment:
  assumes "content m = PDict [(''query'', PStr q)]" and "msg_type m = ''query''"
    and "q = ''How many buckets does user have?'' \<or> q = ''How many instances does user have?''"
  shows "s3_handle_message e w m = (Inr base_handle_message, w)"
proof -
  from assms(3) have "lower q = ''how many buckets does user have?'' \<or> lower q = ''how many instances does user have?''"
    using lower_buckets_query lower_instances_query by auto
  with assms(1,2) show ?thesis
    by (auto simp add: s3_handle_message_def no_count_in_queries enrichment_keywords
        simp del: contains.simps)
qed

lemma handle_message_enrichment:
  assumes "content m = PDict [(''query'', PStr q)]" and "msg_type m = ''query''"
    and "q = ''How many buckets does user have?'' \<or> q = ''How many instances does user have?''"
  shows "handle_message e w k m = (Inr base_handle_message, w)"
  by (simp add: handle_message_def ec2_handle_enrichment [OF assms] s3_handle_enrichment [OF assms]
      split: agent_class.splits)

lemma enrichment_reply:
  assumes "q = ''How many buckets does user have?'' \<or> q = ''How many instances does user have?''"
  shows "fst (query_agent e w self n q) = Inr PNone \<or> fst (query_agent e w self n q) = Inr base_handle_message"
proof (cases "map_of (agents_registry (agents w ! self)) n")
  case None
  then show ?thesis
    by (simp add: query_agent_def send_message_unregistered)
next
  case (Some target)
  then show ?thesis
    by (simp add: query_agent_def send_message_registered
        handle_message_enrichment [OF _ _ assms] new_message_fields)
qed

lemma count_positive_replies:
  "count_positive PNone = Inr False" "count_positive base_handle_message = Inr False"
  by (simp_all add: count_positive_def base_handle_message_def)

lemma add_tip_enrichment:
  assumes "q = ''How many buckets does user have?'' \<or> q = ''How many instances does user have?''"
    and "query_agent e w self n q = (v, w1)"
  shows "\<exists>info. v = Inr info \<and> add_tip info tip result = Inr result"
proof -
  from enrichment_reply [OF assms(1), of e w self n] assms(2)
  have "v = Inr PNone \<or> v = Inr base_handle_message" by simp
  then show ?thesis
    by (auto simp: add_tip_def count_positive_replies)
qed

lemma handle_ec2_create_no_tip:
  assumes "action i = ''create_instance''"
  shows "handle_ec2_action e w self i u =
     (case create_instance e (snd (query_agent e w self ''S3Agent'' ''How many buckets does user have?''))
             (case map_of (parameters i) ''instance_type'' of None \<Rightarrow> Some ''t2.micro'' | Some v \<Rightarrow> v)
             (param_get (parameters i) ''region'') of
        (result, w2) \<Rightarrow> (Inr (PDict result), w2))"
proof -
  obtain v w1 where q: "query_agent e w self ''S3Agent'' ''How many buckets does user have?'' = (v, w1)"
    by (cases "query_agent e w self ''S3Agent'' ''How many buckets does user have?''")
  from add_tip_enrichment [OF _ q] obtain info where info: "v = Inr info"
    and tip: "\<And>tip result. add_tip info tip result = Inr result"
    by blast
  from assms q info show ?thesis
    by (simp add: handle_ec2_action_def Let_def tip split: prod.splits)
qed

lemma handle_s3_create_no_tip:
  assumes "action i = ''create_bucket''" and "param_get (parameters i) ''bucket_name'' = Some b" and "b \<noteq> []"
  shows "handle_s3_action e w self i u =
     (case create_bucket e (snd (query_agent e w self ''EC2Agent'' ''How many instances does user have?''))
             b (param_get (parameters i) ''region'') of
        (result, w2) \<Rightarrow> (Inr (PDict result), w2))"
proof -
  obtain v w1 where q: "query_agent e w self ''EC2Agent'' ''How many instances does user have?'' = (v, w1)"
    by (cases "query_agent e w self ''EC2Agent'' ''How many instances does user have?''")
  from add_tip_enrichment [OF _ q] obtain info where info: "v = Inr info"
    and tip: "\<And>tip result. add_tip info tip result = Inr result"
    by blast
  from assms q info show ?thesis
    by (simp add: handle_s3_action_def Let_def tip split: prod.splits)
qed

lemma py_lower_Inr: "py_lower v = Inr q \<Longrightarrow> \<exists>s. v = PStr s \<and> q = lower s"
  by (cases v) simp_all

lemma ec2_count_key:
  assumes "msg_type m = ''query''" and "fst (ec2_handle_message e w m) = Inr (PDict d)"
    and "map_of d ''count'' \<noteq> None"
  shows "\<exists>q. py_get (content m) ''query'' (PStr []) = Inr (PStr q) \<and> contains ''count'' (lower q)"
proof -
  from assms(1,2) obtain query where query: "py_get (content m) ''query'' (PStr []) = Inr query"
    by (cases "py_get (content m) ''query'' (PStr [])") (simp_all add: ec2_handle_message_def)
  from assms(1,2) query obtain l where l: "py_lower query = Inr l"
    by (cases "py_lower query") (simp_all add: ec2_handle_message_def)
  from py_lower_Inr [OF l] obtain q where q: "query = PStr q" "l = lower q" by blast
  have "contains ''count'' l"
  proof (rule ccontr)
    assume no: "\<not> contains ''count'' l"
    from assms(1,2) query l no have "d = [(''status'', PStr ''received''), (''message'', PStr ''Message received but not processed'')]
        \<or> (\<exists>a b. d = [(''running_count'', a), (''instances'', b)])"
      by (auto simp: ec2_handle_message_def base_handle_message_def split_beta
          split: if_splits sum.splits)
    with assms(3) show False by auto
  qed
  with query q show ?thesis by simp
qed

lemma s3_count_key:
  assumes "msg_type m = ''query''" and "fst (s3_handle_message e w m) = Inr (PDict d)"
    and "map_of d ''count'' \<noteq> None"
  shows "\<exists>q. py_get (content m) ''query'' (PStr []) = Inr (PStr q) \<and> contains ''count'' (lower q)"
proof -
  from assms(1,2) obtain query where query: "py_get (content m) ''query'' (PStr []) = Inr query"
    by (cases "py_get (content m) ''query'' (PStr [])") (simp_all add: s3_handle_message_def)
  from assms(1,2) query obtain l where l: "py_lower query = Inr l"
    by (cases "py_lower query") (simp_all add: s3_handle_message_def)
  from py_lower_Inr [OF l] obtain q where q: "query = PStr q" "l = lower q" by blast
  have "contains ''count'' l"
  proof (rule ccontr)
    assume no: "\<not> contains ''count'' l"
    from assms(1,2) query l no have "d = [(''status'', PStr ''received''), (''message'', PStr ''Message received but not processed'')]
        \<or> d = [(''message'', PStr ''Storage size calculation requires CloudWatch metrics'')]"
      by (auto simp: s3_handle_message_def base_handle_message_def split_beta
          split: if_splits sum.splits)
    with assms(3) show False by auto
  qed
  with query q show ?thesis by simp
qed

lemma handle_message_count_key:
  assumes "msg_type m = ''query''" and "fst (handle_message e w k m) = Inr (PDict d)"
    and "map_of d ''count'' \<noteq> None"
  shows "\<exists>q. py_get (content m) ''query'' (PStr []) = Inr (PStr q) \<and> contains ''count'' (lower q)"
proof (cases "cls (agents w ! k)")
  case EC2Agent
  with assms show ?thesis by (simp add: handle_message_def ec2_count_key)
next
  case S3Agent
  with assms show ?thesis by (simp add: handle_message_def s3_count_key)
next
  case BaseAgent
  with assms show ?thesis by (auto simp: handle_message_def base_handle_message_def)
next
  case CoordinatorAgent
  with assms show ?thesis by (auto simp: handle_message_def base_handle_message_def)
qed

lemma no_count_lower:
  "\<not> contains ''count'' (lower ''How many buckets does user have?'')"
  "\<not> contains ''count'' (lower ''How many instances does user have?'')"
  by (simp_all add: lower_buckets_query lower_instances_query)

text \<open>
  C7. A query handler of the agents returns a dict with a \<open>count\<close> key only for a query
  text that contains "count". Neither enrichment query of the coordinator contains it, so the
  reply is the acknowledgement of the base class (or \<open>None\<close> when the peer is not
  registered), the test for a positive count is false, and the create handlers return the dict
  of the create operation as it is: no tip is added, whatever the world and the provider.
\<close>

theorem enrichment_never_adds_tip:
  "(action i = ''create_instance'' \<longrightarrow>
      handle_ec2_action e w self i u =
        (case create_instance e (snd (query_agent e w self ''S3Agent'' ''How many buckets does user have?''))
                (case map_of (parameters i) ''instance_type'' of None \<Rightarrow> Some ''t2.micro'' | Some v \<Rightarrow> v)
                (param_get (parameters i) ''region'') of
           (result, w2) \<Rightarrow> (Inr (PDict result), w2)))
   \<and> (action i' = ''create_bucket'' \<longrightarrow> param_get (parameters i') ''bucket_name'' = Some b \<longrightarrow> b \<noteq> [] \<longrightarrow>
      handle_s3_action e w self i' u =
        (case create_bucket e (snd (query_agent e w self ''EC2Agent'' ''How many instances does user have?''))
                b (param_get (parameters i') ''region'') of
           (result, w2) \<Rightarrow> (Inr (PDict result), w2)))
   \<and> (msg_type m = ''query'' \<longrightarrow> fst (handle_message e w k m) = Inr (PDict d) \<longrightarrow>
        map_of d ''count'' \<noteq> None \<longrightarrow>
        (\<exists>q. py_get (content m) ''query'' (PStr []) = Inr (PStr q) \<and> contains ''count'' (lower q)))
   \<and> \<not> contains ''count'' (lower ''How many buckets does user have?'')
   \<and> \<not> contains ''count'' (lower ''How many instances does user have?'')
   \<and> (fst (query_agent e w self n ''How many buckets does user have?'') = Inr PNone
        \<or> fst (query_agent e w self n ''How many buckets does user have?'') = Inr base_handle_message)
   \<and> (fst (query_agent e w self n ''How many instances does user have?'') = Inr PNone
        \<or> fst (query_agent e w self n ''How many instances does user have?'') = Inr base_handle_message)"
  using handle_ec2_create_no_tip [of i e w self u] handle_s3_create_no_tip [of i' b e w self u]
    handle_message_count_key [of m e w k d] no_count_lower
    enrichment_reply [of "''How many buckets does user have?''" e w self n]
    enrichment_reply [of "''How many instances does user have?''" e w self n]
  by blast

lemma count_query_reply:
  "fst (handle_message (stub_env frozen_clock) coordinator_network 2 count_query)
   = Inr (PDict [(''count'', PInt 2),
                 (''buckets'', PDict [(''success'', PBool True),
                    (''buckets'', PList [PDict [(''name'', PStr ''logs'')], PDict [(''name'', PStr ''assets'')]])])])"
  by (simp add: handle_message_def s3_handle_message_def coordinator_network_eq count_query_def
      list_buckets_def stub_env_def lower_def lower_char_def)

lemma count_query_fields: "msg_type count_query = ''query''"
  "py_get (content count_query) ''query'' (PStr []) = Inr (PStr ''Bucket count'')"
  by (simp_all add: count_query_def)

lemma create_intents:
  "action (mk_intent ''ec2'' ''create_instance'') = ''create_instance''"
  "parameters (mk_intent ''ec2'' ''create_instance'') = []"
  "action \<lparr>service = ''s3'', action = ''create_bucket'', parameters = [(''bucket_name'', Some ''my-bucket'')]\<rparr>
     = ''create_bucket''"
  "param_get (parameters \<lparr>service = ''s3'', action = ''create_bucket'', parameters = [(''bucket_name'', Some ''my-bucket'')]\<rparr>)
     ''bucket_name'' = Some ''my-bucket''"
  "param_get (parameters \<lparr>service = ''s3'', action = ''create_bucket'', parameters = [(''bucket_name'', Some ''my-bucket'')]\<rparr>)
     ''region'' = None"
  by (simp_all add: mk_intent_def param_get_def)

lemma stub_create:
  "fst (create_instance (stub_env ts) w1 (Some ''t2.micro'') None)
     = [(''success'', PBool True), (''region'', PStr ''us-east-2'')]"
  "fst (create_bucket (stub_env ts) w1 ''my-bucket'' None)
     = [(''success'', PBool True), (''bucket_name'', PStr ''my-bucket''), (''region'', PStr ''us-east-2''),
        (''message'', PStr (''S3 bucket '' @ [CHR 0x27] @ ''my-bucket'' @ [CHR 0x27] @ '' created successfully in us-east-2''))]"
  by (simp_all add: create_instance_def create_bucket_def stub_env_def Let_def region_value_def
      show_region_def)

theorem enrichment_never_adds_tip_witness:
  "action (mk_intent ''ec2'' ''create_instance'') = ''create_instance''
   \<and> fst (handle_ec2_action (stub_env frozen_clock) coordinator_network 0
          (mk_intent ''ec2'' ''create_instance'') ''create an ec2 instance'')
       = Inr (PDict [(''success'', PBool True), (''region'', PStr ''us-east-2'')])
   \<and> fst (handle_s3_action (stub_env frozen_clock) coordinator_network 0
          \<lparr>service = ''s3'', action = ''create_bucket'', parameters = [(''bucket_name'', Some ''my-bucket'')]\<rparr>
          ''create s3 bucket my-bucket'')
       = Inr (PDict [(''success'', PBool True), (''bucket_name'', PStr ''my-bucket''),
                     (''region'', PStr ''us-east-2''),
                     (''message'', PStr (''S3 bucket '' @ [CHR 0x27] @ ''my-bucket'' @ [CHR 0x27]
                        @ '' created successfully in us-east-2''))])
   \<and> msg_type count_query = ''query''
   \<and> map_of [(''count'', PInt 2),
                 (''buckets'', PDict [(''success'', PBool True),
                    (''buckets'', PList [PDict [(''name'', PStr ''logs'')], PDict [(''name'', PStr ''assets'')]])])]
         ''count'' \<noteq> None
   \<and> (\<exists>q. py_get (content count_query) ''query'' (PStr []) = Inr (PStr q) \<and> contains ''count'' (lower q))"
proof -
  let ?e = "stub_env frozen_clock"
  let ?i = "mk_intent ''ec2'' ''create_instance''"
  let ?i' = "\<lparr>service = ''s3'', action = ''create_bucket'', parameters = [(''bucket_name'', Some ''my-bucket'')]\<rparr>"
  let ?d = "[(''count'', PInt 2),
            (''buckets'', PDict [(''success'', PBool True),
               (''buckets'', PList [PDict [(''name'', PStr ''logs'')], PDict [(''name'', PStr ''assets'')]])])]"
  note inst = enrichment_never_adds_tip [of ?i ?e coordinator_network 0 "''create an ec2 instance''"
      ?i' "''my-bucket''" count_query 2 ?d "''S3Agent''"]
  note inst' = enrichment_never_adds_tip [of ?i ?e coordinator_network 0 "''create s3 bucket my-bucket''"
      ?i' "''my-bucket''" count_query 2 ?d "''S3Agent''"]
  have d: "map_of ?d ''count'' \<noteq> None" by simp
  from inst create_intents have "fst (handle_ec2_action ?e coordinator_network 0 ?i ''create an ec2 instance'')
       = Inr (PDict [(''success'', PBool True), (''region'', PStr ''us-east-2'')])"
    by (simp add: split_beta stub_create param_get_def)
  moreover from inst' create_intents
  have "fst (handle_s3_action ?e coordinator_network 0 ?i' ''create s3 bucket my-bucket'')
       = Inr (PDict [(''success'', PBool True), (''bucket_name'', PStr ''my-bucket''),
                     (''region'', PStr ''us-east-2''),
                     (''message'', PStr (''S3 bucket '' @ [CHR 0x27] @ ''my-bucket'' @ [CHR 0x27]
                        @ '' created successfully in us-east-2''))])"
    by (simp add: split_beta stub_create param_get_def)
  moreover from inst count_query_fields(1) count_query_reply d
  have "\<exists>q. py_get (content count_query) ''query'' (PStr []) = Inr (PStr q) \<and> contains ''count'' (lower q)"
    by blast
  ultimately show ?thesis
    using create_intents(1) count_query_fields(1) d by blast
qed

section \<open>The enrichment query comes first and cannot fail the create operation\<close>











section \<open>Where the handlers take their parameters from\<close>























end
